theory Spec2Isabelle
  imports Complex_Main "HOL-Library.AList" "HOL-Library.List_Lexorder" "HOL-Library.Char_ord"
begin

section \<open>Strings and pattern matching\<close>

text \<open>
  A string is a list of 8-bit characters; one character stands for one code unit of a
  JavaScript string and one character of a PostgreSQL text value. The case mappings of
  JavaScript and of PostgreSQL are not defined here: they are parameters of the model
  (record \<open>externals\<close> below).

  SQL \<^verbatim>\<open>LIKE\<close> patterns: \<^verbatim>\<open>%\<close> matches any sequence, \<^verbatim>\<open>_\<close> any one character,
  a backslash takes the next character literally. A pattern that ends in a lone backslash
  is an error in PostgreSQL; \<open>Dangling\<close> stands for it and matches nothing. The patterns
  of \<^verbatim>\<open>server.js\<close> are \<^verbatim>\<open>`%${q}%`\<close> and do not end that way.
\<close>

datatype like_tok = Any_seq | Any_char | Lit char | Dangling

fun like_tokens :: "string \<Rightarrow> like_tok list" where
  "like_tokens [] = []"
| "like_tokens (c # p) =
     (if c = CHR 0x5C then (case p of [] \<Rightarrow> [Dangling] | d # p' \<Rightarrow> Lit d # like_tokens p')
      else if c = CHR ''%'' then Any_seq # like_tokens p
      else if c = CHR ''_'' then Any_char # like_tokens p
      else Lit c # like_tokens p)"

fun like_match :: "like_tok list \<Rightarrow> string \<Rightarrow> bool" where
  "like_match [] s = (s = [])"
| "like_match (Any_seq # ts) [] = like_match ts []"
| "like_match (Any_seq # ts) (c # s) = (like_match ts (c # s) \<or> like_match (Any_seq # ts) s)"
| "like_match (Any_char # ts) [] = False"
| "like_match (Any_char # ts) (c # s) = like_match ts s"
| "like_match (Lit d # ts) [] = False"
| "like_match (Lit d # ts) (c # s) = (d = c \<and> like_match ts s)"
| "like_match (Dangling # ts) s = False"

text \<open>The second query parameter, \<^verbatim>\<open>`%${q}%`\<close>.\<close>

definition like_pattern :: "string \<Rightarrow> string" where
  "like_pattern q = CHR ''%'' # q @ [CHR ''%'']"

section \<open>SQL values\<close>

text \<open>
  A condition on a nullable column is true only when the column is not NULL and the
  condition holds of its value (a NULL comparison is NULL, which no \<^verbatim>\<open>WHEN\<close>,
  \<^verbatim>\<open>WHERE\<close> or \<^verbatim>\<open>ON\<close> takes as true).
\<close>

fun sql_true :: "('a \<Rightarrow> bool) \<Rightarrow> 'a option \<Rightarrow> bool" where
  "sql_true P None = False"
| "sql_true P (Some x) = P x"

definition EXISTS :: "'a list \<Rightarrow> bool" where
  "EXISTS rows = (rows \<noteq> [])"

definition COALESCE :: "'a option \<Rightarrow> 'a \<Rightarrow> 'a" where
  "COALESCE x d = (case x of None \<Rightarrow> d | Some v \<Rightarrow> v)"

text \<open>The aggregate \<^verbatim>\<open>MAX\<close>: NULL inputs are skipped, and no input at all gives NULL.\<close>

fun MAX_agg :: "rat option list \<Rightarrow> rat option" where
  "MAX_agg [] = None"
| "MAX_agg (None # xs) = MAX_agg xs"
| "MAX_agg (Some x # xs) = (case MAX_agg xs of None \<Rightarrow> Some x | Some m \<Rightarrow> Some (max x m))"

text \<open>
  \<^verbatim>\<open>GREATEST\<close> skips NULL arguments too. Its first argument in both queries is the
  similarity of a \<^verbatim>\<open>NOT NULL\<close> name, so it is given apart and the result is never NULL.
\<close>

definition sql_greatest :: "rat \<Rightarrow> rat option list \<Rightarrow> rat" where
  "sql_greatest x ys = max x (COALESCE (MAX_agg ys) x)"

section \<open>JavaScript values\<close>

text \<open>
  A query-string parameter is a string or \<^verbatim>\<open>undefined\<close> (\<open>None\<close>). It is falsy
  when it is \<^verbatim>\<open>undefined\<close> or the empty string.
\<close>

definition truthy :: "string option \<Rightarrow> bool" where
  "truthy v = (case v of None \<Rightarrow> False | Some s \<Rightarrow> s \<noteq> [])"

text \<open>
  \<^verbatim>\<open>parseInt\<close> with no radix: leading white space, a sign, an optional
  \<^verbatim>\<open>0x\<close> prefix, then the longest run of digits; \<open>None\<close> is \<^verbatim>\<open>NaN\<close>. The result
  is a JavaScript number: the integer the digits denote when it is below \<open>2^53\<close>, else
  the nearest number with 53 significant bits, the even one of two (\<open>to_double\<close>). Beyond
  the largest finite number the result is \<^verbatim>\<open>Infinity\<close>, which every column and
  clause below rejects as it rejects the number here.
\<close>

definition is_white_space :: "char \<Rightarrow> bool" where
  "is_white_space c = ((of_char c :: nat) \<in> set [9, 10, 11, 12, 13, 32, 160])"

definition digit_value :: "char \<Rightarrow> nat option" where
  "digit_value c =
     (let n = (of_char c :: nat) in
      if 48 \<le> n \<and> n \<le> 57 then Some (n - 48)
      else if 97 \<le> n \<and> n \<le> 122 then Some (n - 87)
      else if 65 \<le> n \<and> n \<le> 90 then Some (n - 55)
      else None)"

definition is_digit :: "nat \<Rightarrow> char \<Rightarrow> bool" where
  "is_digit radix c = (case digit_value c of None \<Rightarrow> False | Some v \<Rightarrow> v < radix)"

definition digits_value :: "nat \<Rightarrow> string \<Rightarrow> int" where
  "digits_value radix ds =
     foldl (\<lambda>a c. a * int radix + int (COALESCE (digit_value c) 0)) 0 ds"

fun bit_length :: "int \<Rightarrow> nat" where
  "bit_length n = (if n \<le> 0 then 0 else Suc (bit_length (n div 2)))"

definition to_double :: "int \<Rightarrow> int" where
  "to_double n =
     (if \<bar>n\<bar> < 2 ^ 53 then n
      else
        (let e = bit_length \<bar>n\<bar> - 53;
             q = \<bar>n\<bar> div 2 ^ e;
             r = \<bar>n\<bar> mod 2 ^ e;
             m = (if 2 ^ e < 2 * r \<or> (2 * r = 2 ^ e \<and> odd q) then q + 1 else q)
         in sgn n * (m * 2 ^ e)))"

definition parseInt :: "string \<Rightarrow> int option" where
  "parseInt s =
     (let s1 = dropWhile is_white_space s;
          neg = (take 1 s1 = ''-'');
          s2 = (if take 1 s1 = ''-'' \<or> take 1 s1 = ''+'' then drop 1 s1 else s1);
          hex = (take 2 s2 = ''0x'' \<or> take 2 s2 = ''0X'');
          radix = (if hex then 16 else 10);
          s3 = (if hex then drop 2 s2 else s2);
          ds = takeWhile (is_digit radix) s3
      in if ds = [] then None
         else Some (to_double ((if neg then - 1 else 1) * digits_value radix ds)))"

text \<open>\<^verbatim>\<open>s.split(sep)\<close> for a one-character separator.\<close>

fun split :: "char \<Rightarrow> string \<Rightarrow> string list" where
  "split sep [] = [[]]"
| "split sep (c # s) =
     (if c = sep then [] # split sep s
      else (case split sep s of [] \<Rightarrow> [[c]] | x # xs \<Rightarrow> (c # x) # xs))"

text \<open>\<^verbatim>\<open>s.trim()\<close>: the white space at both ends is dropped.\<close>

definition trim :: "string \<Rightarrow> string" where
  "trim s = rev (dropWhile is_white_space (rev (dropWhile is_white_space s)))"

section \<open>The tables\<close>

text \<open>
  The tables of \<^verbatim>\<open>createTables\<close>, one record per row, nullable columns as options.
  A \<^verbatim>\<open>DECIMAL\<close> or floating-point value is the rational it denotes. A JSON object
  (and the JavaScript object parsed from it) is an association list in insertion order.
  The primary keys of the tables are not built into the types: a theorem that needs one
  assumes it. A \<^verbatim>\<open>CHAR(n)\<close> value is stored padded with blanks to \<open>n\<close> characters
  (\<open>pg_char\<close> below).
\<close>

type_synonym json_object = "(string \<times> string) list"

record country =
  co_country_code :: string
  co_name :: string
  co_latitude :: "rat option"
  co_longitude :: "rat option"
  co_spoken_languages :: "string option"
  co_name_translations :: "json_object option"

record city =
  c_geonameid :: int
  c_name :: string
  c_ascii_name :: "string option"
  c_alternatenames :: "string option"
  c_latitude :: "rat option"
  c_longitude :: "rat option"
  c_feature_class :: "string option"
  c_feature_code :: "string option"
  c_country_code :: "string option"
  c_admin1_code :: "string option"
  c_admin1_name :: "string option"
  c_population :: "int option"
  c_elevation :: "int option"
  c_timezone :: "string option"
  c_modification_date :: "string option"

record alternate_name =
  alt_alternatenameid :: int
  alt_geonameid :: "int option"
  alt_isolanguage :: "string option"
  alt_alternate_name :: "string option"
  alt_is_preferred_name :: "bool option"
  alt_is_short_name :: "bool option"
  alt_is_colloquial :: "bool option"
  alt_is_historic :: "bool option"

record country_alternate_name =
  ca_id :: int
  ca_country_code :: "string option"
  ca_isolanguage :: "string option"
  ca_name :: "string option"

text \<open>
  The database behind \<^verbatim>\<open>pool\<close>: the four tables and the number of statements
  \<^verbatim>\<open>pool.query\<close> has sent so far.
\<close>

record db =
  countries :: "country list"
  cities :: "city list"
  alternate_names :: "alternate_name list"
  country_alternate_names :: "country_alternate_name list"
  queries :: nat

text \<open>
  What the database makes of a number the driver sends as a parameter: \<^verbatim>\<open>NaN\<close> and a
  value outside the column's or clause's range raise an error (\<open>None\<close>).
\<close>

definition pg_integer :: "int option \<Rightarrow> int option" where
  "pg_integer v =
     (case v of None \<Rightarrow> None
      | Some n \<Rightarrow> if - (2 ^ 31) \<le> n \<and> n < 2 ^ 31 then Some n else None)"

definition pg_limit :: "int option \<Rightarrow> nat option" where
  "pg_limit v =
     (case v of None \<Rightarrow> None
      | Some n \<Rightarrow> if 0 \<le> n \<and> n < 2 ^ 63 then Some (nat n) else None)"

text \<open>
  What the code takes from PostgreSQL and from JavaScript and this repository does not
  define: \<^verbatim>\<open>LOWER\<close>, which folds case by the locale of the database, and by which
  \<^verbatim>\<open>ILIKE\<close> folds too; \<^verbatim>\<open>similarity(a, b)\<close> and the operator \<^verbatim>\<open>a % b\<close> of the
  \<^verbatim>\<open>pg_trgm\<close> extension; the order in which the plan of a query hands over the joined
  rows of the city branch and of the country branch, as the rank it gives each row (no
  \<^verbatim>\<open>ORDER BY\<close> fixes the order in which \<^verbatim>\<open>json_object_agg\<close> takes the rows of a
  group); and the string methods \<^verbatim>\<open>toUpperCase\<close> and \<^verbatim>\<open>toLowerCase\<close>. They are
  parameters of the model.
\<close>

record externals =
  LOWER :: "string \<Rightarrow> string"
  similarity :: "string \<Rightarrow> string \<Rightarrow> rat"
  similarity_op :: "string \<Rightarrow> string \<Rightarrow> bool"
  city_plan :: "city \<times> country \<times> alternate_name option \<Rightarrow> nat"
  country_plan :: "country \<times> country_alternate_name option \<Rightarrow> nat"
  toUpperCase :: "string \<Rightarrow> string"
  toLowerCase :: "string \<Rightarrow> string"

text \<open>
  \<^verbatim>\<open>x ILIKE p\<close>: \<^verbatim>\<open>LIKE\<close> on the subject and the pattern, both folded by
  \<^verbatim>\<open>LOWER\<close>.
\<close>

definition ILIKE :: "externals \<Rightarrow> string \<Rightarrow> string \<Rightarrow> bool" where
  "ILIKE ext s p = like_match (like_tokens (LOWER ext p)) (LOWER ext s)"

section \<open>The score of a search candidate\<close>

text \<open>
  The \<^verbatim>\<open>CASE\<close> of the city branch (\<^verbatim>\<open>server.js\<close>, lines 81-93). \<open>gid\<close>,
  \<open>name\<close> and \<open>ascii_name\<close> are the grouped columns of the city; \<open>alts\<close> are the
  \<^verbatim>\<open>alternate_names\<close> sides of the joined rows of its group (NULL for a city the
  \<^verbatim>\<open>LEFT JOIN\<close> found no alternate name for), over which \<^verbatim>\<open>MAX\<close> aggregates.
\<close>

definition city_score ::
  "externals \<Rightarrow> db \<Rightarrow> string \<Rightarrow> int \<Rightarrow> string \<Rightarrow> string option \<Rightarrow> alternate_name option list \<Rightarrow> rat"
where
  "city_score ext d q gid name ascii_name alts =
     (if LOWER ext name = LOWER ext q then 100
      else if sql_true (\<lambda>a. LOWER ext a = LOWER ext q) ascii_name then 95
      else if EXISTS (filter (\<lambda>alt. alt_geonameid alt = Some gid \<and>
                sql_true (\<lambda>n. LOWER ext n = LOWER ext q) (alt_alternate_name alt)) (alternate_names d)) then 90
      else if ILIKE ext name (like_pattern q) then 80
      else if sql_true (\<lambda>a. ILIKE ext a (like_pattern q)) ascii_name then 75
      else if EXISTS (filter (\<lambda>alt. alt_geonameid alt = Some gid \<and>
                sql_true (\<lambda>n. ILIKE ext n (like_pattern q)) (alt_alternate_name alt)) (alternate_names d)) then 70
      else sql_greatest (similarity ext name q)
             [map_option (\<lambda>a. similarity ext a q) ascii_name,
              Some (COALESCE (MAX_agg (map (\<lambda>alt. case alt of None \<Rightarrow> None
                      | Some a \<Rightarrow> map_option (\<lambda>n. similarity ext n q) (alt_alternate_name a)) alts)) 0)]
           * 10)"

text \<open>The \<^verbatim>\<open>CASE\<close> of the country branch (\<^verbatim>\<open>server.js\<close>, lines 134-143).\<close>

definition country_score ::
  "externals \<Rightarrow> db \<Rightarrow> string \<Rightarrow> string \<Rightarrow> string \<Rightarrow> country_alternate_name option list \<Rightarrow> rat"
where
  "country_score ext d q code name alts =
     (if LOWER ext name = LOWER ext q then 100
      else if ILIKE ext name (like_pattern q) then 80
      else if EXISTS (filter (\<lambda>alt. ca_country_code alt = Some code \<and>
                sql_true (\<lambda>n. LOWER ext n = LOWER ext q) (ca_name alt)) (country_alternate_names d)) then 90
      else if EXISTS (filter (\<lambda>alt. ca_country_code alt = Some code \<and>
                sql_true (\<lambda>n. ILIKE ext n (like_pattern q)) (ca_name alt)) (country_alternate_names d)) then 70
      else sql_greatest (similarity ext name q)
             [Some (COALESCE (MAX_agg (map (\<lambda>alt. case alt of None \<Rightarrow> None
                      | Some a \<Rightarrow> map_option (\<lambda>n. similarity ext n q) (ca_name a)) alts)) 0)]
           * 10)"

section \<open>The search query\<close>

text \<open>
  A row of the \<^verbatim>\<open>search_results\<close> common table expression, with the columns the
  handler and the outer \<^verbatim>\<open>WHERE\<close>, \<^verbatim>\<open>ORDER BY\<close> and \<^verbatim>\<open>LIMIT\<close> read
  (\<^verbatim>\<open>ascii_name\<close> and \<^verbatim>\<open>alternatenames\<close> are selected and never read).
\<close>

record search_row =
  r_type :: string
  r_geonameid :: "int option"
  r_name :: string
  r_country_code :: "string option"
  r_country_name :: string
  r_admin_region :: "string option"
  r_latitude :: "rat option"
  r_longitude :: "rat option"
  r_spoken_languages :: "string option"
  r_country_translations :: "json_object option"
  r_score :: rat
  r_name_translations_agg :: "json_object option"

text \<open>
  \<^verbatim>\<open>LEFT JOIN\<close>: the matching rows of the right table, or one NULL row when there is
  none.
\<close>

definition LEFT_JOIN :: "'a list \<Rightarrow> 'a option list" where
  "LEFT_JOIN rows = (if rows = [] then [None] else map Some rows)"

text \<open>
  \<^verbatim>\<open>GROUP BY\<close>: one group per distinct value of the grouping columns, holding the rows
  with that value in their order.
\<close>

definition GROUP_BY :: "('a \<Rightarrow> 'k) \<Rightarrow> 'a list \<Rightarrow> ('k \<times> 'a list) list" where
  "GROUP_BY key rows = map (\<lambda>k. (k, filter (\<lambda>r. key r = k) rows)) (remdups (map key rows))"

text \<open>
  \<^verbatim>\<open>json_object_agg\<close>, read back by the driver's \<^verbatim>\<open>JSON.parse\<close>: a key given
  again takes the later value, in the order in which the rows reach the aggregate. No
  input row gives NULL.
\<close>

definition json_object_agg :: "(string \<times> string) list \<Rightarrow> json_object option" where
  "json_object_agg pairs =
     (if pairs = [] then None else Some (fold (\<lambda>(k, v) obj. AList.update k v obj) pairs []))"

text \<open>
  The city branch: \<^verbatim>\<open>FROM cities c JOIN countries co ... LEFT JOIN alternate_names alt\<close>
  with its rows in the order of the plan, its \<^verbatim>\<open>WHERE\<close>, its \<^verbatim>\<open>GROUP BY\<close>
  columns and its select list.
\<close>

type_synonym city_joined = "city \<times> country \<times> alternate_name option"

definition city_join :: "externals \<Rightarrow> db \<Rightarrow> city_joined list" where
  "city_join ext d =
     sort_key (city_plan ext)
       [(c, co, alt).
          c \<leftarrow> cities d,
          co \<leftarrow> countries d, c_country_code c = Some (co_country_code co),
          alt \<leftarrow> LEFT_JOIN (filter (\<lambda>alt. alt_geonameid alt = Some (c_geonameid c))
                    (alternate_names d))]"

definition alt_name :: "alternate_name option \<Rightarrow> string option" where
  "alt_name alt = (case alt of None \<Rightarrow> None | Some a \<Rightarrow> alt_alternate_name a)"

definition city_where :: "externals \<Rightarrow> string \<Rightarrow> city_joined \<Rightarrow> bool" where
  "city_where ext q = (\<lambda>(c, co, alt).
      ILIKE ext (c_name c) (like_pattern q) \<or>
      sql_true (\<lambda>n. ILIKE ext n (like_pattern q)) (c_ascii_name c) \<or>
      similarity_op ext (c_name c) q \<or>
      sql_true (\<lambda>n. similarity_op ext n q) (c_ascii_name c) \<or>
      sql_true (\<lambda>n. ILIKE ext n (like_pattern q)) (alt_name alt) \<or>
      sql_true (\<lambda>n. similarity_op ext n q) (alt_name alt))"

type_synonym city_key =
  "int \<times> string \<times> string option \<times> string option \<times> string \<times> string option \<times>
   rat option \<times> rat option \<times> string option \<times> string option \<times> json_object option"

definition city_key :: "city_joined \<Rightarrow> city_key" where
  "city_key = (\<lambda>(c, co, alt).
     (c_geonameid c, c_name c, c_ascii_name c, c_country_code c, co_name co, c_admin1_name c,
      c_latitude c, c_longitude c, c_alternatenames c, co_spoken_languages co,
      co_name_translations co))"

text \<open>
  The pairs \<^verbatim>\<open>json_object_agg\<close> sees for a group: language and name of each joined
  alternate name, under \<^verbatim>\<open>FILTER (WHERE ... IS NOT NULL AND ... IS NOT NULL)\<close>.
\<close>

definition translation_pairs :: "city_joined list \<Rightarrow> (string \<times> string) list" where
  "translation_pairs rows =
     concat (map (\<lambda>(c, co, alt).
        case alt of None \<Rightarrow> []
        | Some a \<Rightarrow> (case (alt_isolanguage a, alt_alternate_name a) of
                      (Some l, Some n) \<Rightarrow> [(l, n)] | _ \<Rightarrow> [])) rows)"

definition city_select :: "externals \<Rightarrow> db \<Rightarrow> string \<Rightarrow> city_key \<times> city_joined list \<Rightarrow> search_row" where
  "city_select ext d q = (\<lambda>((geonameid, name, ascii_name, country_code, country_name, admin1_name,
        latitude, longitude, alternatenames, spoken_languages, name_translations), rows).
     \<lparr> r_type = ''city'', r_geonameid = Some geonameid, r_name = name,
       r_country_code = country_code, r_country_name = country_name,
       r_admin_region = admin1_name, r_latitude = latitude, r_longitude = longitude,
       r_spoken_languages = spoken_languages, r_country_translations = name_translations,
       r_score = city_score ext d q geonameid name ascii_name (map (\<lambda>(c, co, alt). alt) rows),
       r_name_translations_agg = Some (COALESCE (json_object_agg (translation_pairs rows)) []) \<rparr>)"

definition city_rows :: "externals \<Rightarrow> db \<Rightarrow> string \<Rightarrow> search_row list" where
  "city_rows ext d q =
     map (city_select ext d q) (GROUP_BY city_key (filter (city_where ext q) (city_join ext d)))"

text \<open>
  The country branch: \<^verbatim>\<open>FROM countries co LEFT JOIN country_alternate_names alt\<close>.
\<close>

type_synonym country_joined = "country \<times> country_alternate_name option"

definition country_join :: "externals \<Rightarrow> db \<Rightarrow> country_joined list" where
  "country_join ext d =
     sort_key (country_plan ext)
       [(co, alt).
          co \<leftarrow> countries d,
          alt \<leftarrow> LEFT_JOIN (filter (\<lambda>alt. Some (co_country_code co) = ca_country_code alt)
                    (country_alternate_names d))]"

definition country_alt_name :: "country_alternate_name option \<Rightarrow> string option" where
  "country_alt_name alt = (case alt of None \<Rightarrow> None | Some a \<Rightarrow> ca_name a)"

definition country_where :: "externals \<Rightarrow> string \<Rightarrow> country_joined \<Rightarrow> bool" where
  "country_where ext q = (\<lambda>(co, alt).
      ILIKE ext (co_name co) (like_pattern q) \<or>
      similarity_op ext (co_name co) q \<or>
      sql_true (\<lambda>n. ILIKE ext n (like_pattern q)) (country_alt_name alt) \<or>
      sql_true (\<lambda>n. similarity_op ext n q) (country_alt_name alt))"

type_synonym country_key =
  "string \<times> string \<times> rat option \<times> rat option \<times> json_object option \<times> string option"

definition country_key :: "country_joined \<Rightarrow> country_key" where
  "country_key = (\<lambda>(co, alt).
     (co_country_code co, co_name co, co_latitude co, co_longitude co, co_name_translations co,
      co_spoken_languages co))"

definition country_select ::
  "externals \<Rightarrow> db \<Rightarrow> string \<Rightarrow> country_key \<times> country_joined list \<Rightarrow> search_row"
where
  "country_select ext d q = (\<lambda>((country_code, name, latitude, longitude, name_translations,
        spoken_languages), rows).
     \<lparr> r_type = ''country'', r_geonameid = None, r_name = name,
       r_country_code = Some country_code, r_country_name = name,
       r_admin_region = None, r_latitude = latitude, r_longitude = longitude,
       r_spoken_languages = spoken_languages, r_country_translations = name_translations,
       r_score = country_score ext d q country_code name (map (\<lambda>(co, alt). alt) rows),
       r_name_translations_agg = name_translations \<rparr>)"

definition country_rows :: "externals \<Rightarrow> db \<Rightarrow> string \<Rightarrow> search_row list" where
  "country_rows ext d q =
     map (country_select ext d q)
       (GROUP_BY country_key (filter (country_where ext q) (country_join ext d)))"

text \<open>
  The types of the select lists of the two branches, from the column types of
  \<^verbatim>\<open>createTables\<close>: a string literal and \<^verbatim>\<open>NULL\<close> are of unknown type, the
  score is a \<^verbatim>\<open>CASE\<close> over integers and a product with a \<^verbatim>\<open>real\<close>, and the last
  column is \<^verbatim>\<open>COALESCE(json_object_agg(...), '{}'::json)\<close> in the city branch and the
  \<^verbatim>\<open>JSONB\<close> column \<^verbatim>\<open>name_translations\<close> in the country branch.
\<close>

datatype pg_type = Unknown | Text | Varchar | Bpchar | Int4 | Numeric | Float8 | Json | Jsonb

definition city_columns :: "pg_type list" where
  "city_columns =
     [Unknown, Int4, Varchar, Varchar, Bpchar, Varchar, Varchar, Numeric, Numeric, Text, Text,
      Jsonb, Float8, Json]"

definition country_columns :: "pg_type list" where
  "country_columns =
     [Unknown, Unknown, Varchar, Varchar, Bpchar, Varchar, Unknown, Numeric, Numeric, Text, Text,
      Jsonb, Float8, Jsonb]"

text \<open>
  How PostgreSQL resolves the type of a column of \<^verbatim>\<open>UNION ALL\<close> from the types of the
  two branches: the same type is taken; an unknown type gives way to the other, and two of
  them make \<^verbatim>\<open>text\<close>; types of different categories fail; else the first type is
  the candidate, the second takes its place when the first is not preferred and converts
  implicitly to the second but not back, and both must convert implicitly to the candidate.
  The string types convert implicitly into each other, a number type into a wider one, and
  \<^verbatim>\<open>json\<close> and \<^verbatim>\<open>jsonb\<close> into each other only on assignment or by a cast.
\<close>

datatype pg_category = String_category | Numeric_category | User_category | Unknown_category

fun category :: "pg_type \<Rightarrow> pg_category" where
  "category Unknown = Unknown_category"
| "category Text = String_category"
| "category Varchar = String_category"
| "category Bpchar = String_category"
| "category Int4 = Numeric_category"
| "category Numeric = Numeric_category"
| "category Float8 = Numeric_category"
| "category Json = User_category"
| "category Jsonb = User_category"

definition preferred :: "pg_type \<Rightarrow> bool" where
  "preferred t = (t = Text \<or> t = Float8)"

definition implicit_cast :: "pg_type \<Rightarrow> pg_type \<Rightarrow> bool" where
  "implicit_cast a b =
     (a = b \<or> a = Unknown \<or>
      (category a = String_category \<and> category b = String_category) \<or>
      (a = Int4 \<and> (b = Numeric \<or> b = Float8)) \<or>
      (a = Numeric \<and> b = Float8))"

definition union_type :: "pg_type \<Rightarrow> pg_type \<Rightarrow> pg_type option" where
  "union_type a b =
     (if a = b then Some (if a = Unknown then Text else a)
      else if a = Unknown then Some b
      else if b = Unknown then Some a
      else if category a \<noteq> category b then None
      else
        (let candidate =
               (if \<not> preferred a \<and> implicit_cast a b \<and> \<not> implicit_cast b a then b else a)
         in if implicit_cast a candidate \<and> implicit_cast b candidate then Some candidate
            else None))"

text \<open>
  \<^verbatim>\<open>UNION ALL\<close> of two branches, each with the types of its columns and its rows:
  an error (\<open>None\<close>) when the branches differ in the number of columns or a column has no
  common type, else the rows of the first branch and then those of the second.
\<close>

definition UNION_ALL ::
  "pg_type list \<times> 'r list \<Rightarrow> pg_type list \<times> 'r list \<Rightarrow> (pg_type list \<times> 'r list) option" where
  "UNION_ALL l r =
     (if length (fst l) = length (fst r) \<and>
         list_all (\<lambda>(a, b). union_type a b \<noteq> None) (zip (fst l) (fst r))
      then Some (map (\<lambda>(a, b). COALESCE (union_type a b) Unknown) (zip (fst l) (fst r)),
                 snd l @ snd r)
      else None)"

text \<open>
  The common table expression \<^verbatim>\<open>search_results\<close>: the \<^verbatim>\<open>UNION ALL\<close> of the two
  branches, \<open>None\<close> when PostgreSQL cannot type it.
\<close>

definition search_results :: "externals \<Rightarrow> db \<Rightarrow> string \<Rightarrow> search_row list option" where
  "search_results ext d q =
     map_option snd
       (UNION_ALL (city_columns, city_rows ext d q) (country_columns, country_rows ext d q))"

text \<open>
  \<^verbatim>\<open>SELECT * FROM search_results\<close> with the optional \<^verbatim>\<open>WHERE country_code = ...\<close>
  and \<^verbatim>\<open>type = ...\<close>, then \<^verbatim>\<open>ORDER BY score DESC, name ASC LIMIT ...\<close>, on the rows
  of the common table expression. The two sort keys are applied as two stable sorts, the
  minor key first; names are compared code by code, and rows that tie on both keys, for
  which PostgreSQL fixes no order, stay in the order of the plan.
\<close>

definition select_from ::
  "search_row list \<Rightarrow> string option \<Rightarrow> string option \<Rightarrow> nat \<Rightarrow> search_row list" where
  "select_from rows country_param type_param n =
     take n
       (sort_key (\<lambda>r. - r_score r)
         (sort_key r_name
           (filter (\<lambda>r. case type_param of None \<Rightarrow> True | Some t \<Rightarrow> r_type r = t)
             (filter (\<lambda>r. case country_param of None \<Rightarrow> True
                           | Some cc \<Rightarrow> r_country_code r = Some cc)
               rows))))"

text \<open>
  The statement the handler sends. \<open>None\<close> is an error PostgreSQL raises: for a
  \<^verbatim>\<open>UNION ALL\<close> it cannot type, or for a limit it cannot read.
\<close>

definition search_query ::
  "externals \<Rightarrow> db \<Rightarrow> string \<Rightarrow> string option \<Rightarrow> string option \<Rightarrow> int option
   \<Rightarrow> search_row list option"
where
  "search_query ext d q country_param type_param limit_param =
     (case search_results ext d q of
        None \<Rightarrow> None
      | Some rows \<Rightarrow>
          (case pg_limit limit_param of
             None \<Rightarrow> None
           | Some n \<Rightarrow> Some (select_from rows country_param type_param n)))"

section \<open>The handler of /search\<close>

record search_request =
  req_q :: "string option"
  req_country :: "string option"
  req_type :: "string option"
  req_autocomplete :: "string option"
  req_limit :: "string option"

record base_result =
  res_type :: string
  res_name :: string
  res_country_code :: "string option"
  res_country_name :: string
  res_coordinates :: "rat option \<times> rat option"

datatype result =
    City_result base_result "string option" json_object
  | Country_result base_result "string list" json_object

record search_body =
  sb_query :: string
  sb_results :: "result list"
  sb_count :: nat
  sb_autocomplete :: bool

text \<open>The translations of a city result (\<^verbatim>\<open>server.js\<close>, lines 190-195).\<close>

definition city_translations :: "search_row \<Rightarrow> json_object" where
  "city_translations row =
     (let translations = COALESCE (r_name_translations_agg row) []
      in if \<not> truthy (map_of translations ''en'')
         then AList.update ''en'' (r_name row) translations
         else translations)"

definition format_result :: "search_row \<Rightarrow> result" where
  "format_result row =
     (let baseResult = \<lparr> res_type = r_type row, res_name = r_name row,
            res_country_code = r_country_code row, res_country_name = r_country_name row,
            res_coordinates = (r_latitude row, r_longitude row) \<rparr>
      in if r_type row = ''city''
         then City_result baseResult (r_admin_region row) (city_translations row)
         else Country_result baseResult
                (if truthy (r_spoken_languages row)
                 then split (CHR '','') (COALESCE (r_spoken_languages row) []) else [])
                (COALESCE (r_country_translations row) []))"

text \<open>
  The responses: status 200 with a body, status 400 with one of the two validation
  messages of \<^verbatim>\<open>server.js\<close> (lines 60 and 224), status 500 from a \<^verbatim>\<open>catch\<close>.
\<close>

datatype validation_error = Q_required_min_2_characters | Lat_and_lon_required

datatype 'a response = Ok_200 'a | Bad_request_400 validation_error | Internal_error_500

text \<open>
  The limit the handler sends: \<^verbatim>\<open>parseInt\<close> of the request's, or 10 or 20 when the
  request has none.
\<close>

definition search_limit :: "search_request \<Rightarrow> int option" where
  "search_limit req =
     (case req_limit req of
        None \<Rightarrow> Some (if req_autocomplete req = Some ''true'' then 10 else 20)
      | Some l \<Rightarrow> parseInt l)"

text \<open>
  The parameters the handler appends to the statement (lines 162-171): the country code in
  upper case when the request has one, the type when it is one of the two known.
\<close>

definition country_param :: "externals \<Rightarrow> search_request \<Rightarrow> string option" where
  "country_param ext req =
     (if truthy (req_country req) then Some (toUpperCase ext (COALESCE (req_country req) []))
      else None)"

definition type_param :: "search_request \<Rightarrow> string option" where
  "type_param req =
     (if truthy (req_type req) \<and> COALESCE (req_type req) [] \<in> set [''city'', ''country'']
      then req_type req else None)"

text \<open>
  \<^verbatim>\<open>app.get('/search', ...)\<close> after authentication: the response, and the database
  with its count of statements. A statement PostgreSQL rejects is counted and answered
  with status 500 by the \<^verbatim>\<open>catch\<close>.
\<close>

definition search :: "externals \<Rightarrow> search_request \<Rightarrow> db \<Rightarrow> search_body response \<times> db" where
  "search ext req d =
     (if \<not> truthy (req_q req) \<or> length (COALESCE (req_q req) []) < 2
      then (Bad_request_400 Q_required_min_2_characters, d)
      else
        (let q = COALESCE (req_q req) []
         in case search_query ext d q (country_param ext req) (type_param req) (search_limit req) of
              None \<Rightarrow> (Internal_error_500, d\<lparr>queries := queries d + 1\<rparr>)
            | Some rows \<Rightarrow>
                (let formattedResults = map format_result rows
                 in (Ok_200 \<lparr> sb_query = q, sb_results = formattedResults,
                              sb_count = length formattedResults,
                              sb_autocomplete = (req_autocomplete req = Some ''true'') \<rparr>,
                     d\<lparr>queries := queries d + 1\<rparr>))))"

section \<open>The handler of /reverse\<close>

text \<open>
  What the reverse query takes from outside this repository: how PostgreSQL reads the
  text the driver sends for a coordinate (\<^verbatim>\<open>$1\<close>, \<^verbatim>\<open>$2\<close>) and for the radius
  (\<^verbatim>\<open>$3\<close>, the operand of \<^verbatim>\<open>* 1000\<close>), \<open>None\<close> when it rejects the text or the
  product; the PostGIS distance in metres between two geography points, each given as
  (longitude, latitude); the quotient of two double-precision numbers as PostgreSQL rounds
  it; and JavaScript's \<^verbatim>\<open>parseFloat\<close>, \<open>None\<close> for \<^verbatim>\<open>NaN\<close>. They are parameters of
  the model.
\<close>

record postgis =
  coordinate_in :: "string \<Rightarrow> rat option"
  radius_in :: "string \<Rightarrow> rat option"
  ST_Distance :: "rat \<times> rat \<Rightarrow> rat \<times> rat \<Rightarrow> rat"
  float8_div :: "rat \<Rightarrow> rat \<Rightarrow> rat"
  parseFloat :: "string \<Rightarrow> rat option"

text \<open>\<^verbatim>\<open>ST_DWithin(a, b, r)\<close>: the distance of \<open>a\<close> and \<open>b\<close> is at most \<open>r\<close> metres.\<close>

definition ST_DWithin :: "postgis \<Rightarrow> rat \<times> rat \<Rightarrow> rat \<times> rat \<Rightarrow> rat \<Rightarrow> bool" where
  "ST_DWithin pg a b r = (ST_Distance pg a b \<le> r)"

record reverse_row =
  v_type :: string
  v_geonameid :: int
  v_name :: string
  v_country_code :: "string option"
  v_country_name :: string
  v_admin_region :: "string option"
  v_latitude :: rat
  v_longitude :: rat
  v_distance_km :: rat

text \<open>
  The statement of the handler (\<^verbatim>\<open>server.js\<close>, lines 228-253). A city with a NULL
  coordinate has a NULL point and fails the \<^verbatim>\<open>WHERE\<close>. Rows at the same distance,
  for which PostgreSQL fixes no order, stay in the order of the tables.
\<close>

definition reverse_query :: "postgis \<Rightarrow> db \<Rightarrow> rat \<Rightarrow> rat \<Rightarrow> rat \<Rightarrow> reverse_row list" where
  "reverse_query pg d lat lon radius =
     take 5
       (sort_key v_distance_km
         (concat (map (\<lambda>(c, co).
            case (c_latitude c, c_longitude c) of
              (Some latitude, Some longitude) \<Rightarrow>
                if ST_DWithin pg (lon, lat) (longitude, latitude) (radius * 1000)
                then [\<lparr> v_type = ''city'', v_geonameid = c_geonameid c, v_name = c_name c,
                        v_country_code = c_country_code c, v_country_name = co_name co,
                        v_admin_region = c_admin1_name c,
                        v_latitude = latitude, v_longitude = longitude,
                        v_distance_km =
                          float8_div pg (ST_Distance pg (lon, lat) (longitude, latitude)) 1000 \<rparr>]
                else []
            | _ \<Rightarrow> [])
          [(c, co). c \<leftarrow> cities d, co \<leftarrow> countries d,
                    c_country_code c = Some (co_country_code co)])))"

text \<open>
  \<^verbatim>\<open>x.toFixed(2)\<close>, as the number its digits denote: the sign apart, the integer \<open>n\<close>
  for which \<open>n / 100\<close> is nearest to \<open>x\<close>, the larger of two; from \<open>10^21\<close> on the
  number is printed as it is.
\<close>

definition toFixed2 :: "rat \<Rightarrow> rat" where
  "toFixed2 x =
     (if 10 ^ 21 \<le> \<bar>x\<bar> then x
      else if x < 0 then - (of_int \<lfloor>- x * 100 + 1 / 2\<rfloor> / 100)
      else of_int \<lfloor>x * 100 + 1 / 2\<rfloor> / 100)"

record reverse_request =
  req_lat :: "string option"
  req_lon :: "string option"
  req_radius :: "string option"

record reverse_result =
  rr_type :: string
  rr_name :: string
  rr_country_code :: "string option"
  rr_country_name :: string
  rr_admin_region :: "string option"
  rr_coordinates :: "rat \<times> rat"
  rr_distance_km :: rat

record reverse_body =
  rb_coordinates :: "rat option \<times> rat option"
  rb_results :: "reverse_result list"
  rb_count :: nat

definition format_reverse :: "reverse_row \<Rightarrow> reverse_result" where
  "format_reverse row =
     \<lparr> rr_type = v_type row, rr_name = v_name row, rr_country_code = v_country_code row,
       rr_country_name = v_country_name row, rr_admin_region = v_admin_region row,
       rr_coordinates = (v_latitude row, v_longitude row),
       rr_distance_km = toFixed2 (v_distance_km row) \<rparr>"

text \<open>
  \<^verbatim>\<open>app.get('/reverse', ...)\<close> after authentication. The radius is the text 50 when
  the request has none. A parameter the database cannot read fails the statement, which
  the \<^verbatim>\<open>catch\<close> answers with status 500.
\<close>

definition reverse :: "postgis \<Rightarrow> reverse_request \<Rightarrow> db \<Rightarrow> reverse_body response \<times> db" where
  "reverse pg req d =
     (if \<not> truthy (req_lat req) \<or> \<not> truthy (req_lon req)
      then (Bad_request_400 Lat_and_lon_required, d)
      else
        (let lat = COALESCE (req_lat req) [];
             lon = COALESCE (req_lon req) [];
             radius = (case req_radius req of None \<Rightarrow> ''50'' | Some r \<Rightarrow> r)
         in case (coordinate_in pg lat, coordinate_in pg lon, radius_in pg radius) of
              (Some la, Some lo, Some r) \<Rightarrow>
                (let formattedResults = map format_reverse (reverse_query pg d la lo r)
                 in (Ok_200 \<lparr> rb_coordinates = (parseFloat pg lat, parseFloat pg lon),
                              rb_results = formattedResults,
                              rb_count = length formattedResults \<rparr>,
                     d\<lparr>queries := queries d + 1\<rparr>))
            | _ \<Rightarrow> (Internal_error_500, d\<lparr>queries := queries d + 1\<rparr>)))"

section \<open>The loader: countries and cities\<close>

text \<open>
  Every \<^verbatim>\<open>pool.query\<close> of \<^verbatim>\<open>load-data.js\<close> is counted in \<open>queries\<close>. The
  \<^verbatim>\<open>INSERT ... ON CONFLICT (country_code) DO UPDATE SET ...\<close> of
  \<^verbatim>\<open>loadCountriesData\<close> (lines 416-425): a row with the code is given the five other
  columns of the new row, and a new code is appended.
\<close>

definition upsert_country :: "country \<Rightarrow> db \<Rightarrow> db" where
  "upsert_country excluded d =
     d\<lparr> countries :=
          (if list_ex (\<lambda>co. co_country_code co = co_country_code excluded) (countries d)
           then map (\<lambda>co. if co_country_code co = co_country_code excluded
                           then co\<lparr> co_name := co_name excluded,
                                   co_latitude := co_latitude excluded,
                                   co_longitude := co_longitude excluded,
                                   co_spoken_languages := co_spoken_languages excluded,
                                   co_name_translations := co_name_translations excluded \<rparr>
                           else co) (countries d)
           else countries d @ [excluded]),
        queries := queries d + 1 \<rparr>"

text \<open>
  \<^verbatim>\<open>loadCountriesData\<close>: the two \<^verbatim>\<open>ALTER TABLE ... DROP CONSTRAINT\<close> statements,
  which change no row and are taken to succeed, then one upsert for each row of the list \<open>seed\<close> (the constant
  \<^verbatim>\<open>countries\<close> of the source, its translations already parsed).
\<close>

definition loadCountriesData :: "country list \<Rightarrow> db \<Rightarrow> db" where
  "loadCountriesData seed d = fold upsert_country seed (d\<lparr>queries := queries d + 2\<rparr>)"

text \<open>
  \<^verbatim>\<open>INSERT INTO cities ... ON CONFLICT (geonameid) DO NOTHING\<close> and
  \<^verbatim>\<open>INSERT INTO alternate_names ... ON CONFLICT (alternatenameid) DO NOTHING\<close>.
\<close>

definition insert_city :: "city \<Rightarrow> db \<Rightarrow> db" where
  "insert_city c d =
     d\<lparr> cities := (if list_ex (\<lambda>x. c_geonameid x = c_geonameid c) (cities d)
                    then cities d else cities d @ [c]),
        queries := queries d + 1 \<rparr>"

definition insert_alternate_name :: "alternate_name \<Rightarrow> db \<Rightarrow> db" where
  "insert_alternate_name a d =
     d\<lparr> alternate_names :=
          (if list_ex (\<lambda>x. alt_alternatenameid x = alt_alternatenameid a) (alternate_names d)
           then alternate_names d else alternate_names d @ [a]),
        queries := queries d + 1 \<rparr>"

text \<open>
  A row of the cities dump as \<^verbatim>\<open>csv-parser\<close> hands it over: one text for each of the
  nineteen headers, \<^verbatim>\<open>undefined\<close> for a column the line does not have.
\<close>

record city_row =
  row_geonameid :: "string option"
  row_name :: "string option"
  row_asciiname :: "string option"
  row_alternatenames :: "string option"
  row_latitude :: "string option"
  row_longitude :: "string option"
  row_feature_class :: "string option"
  row_feature_code :: "string option"
  row_country_code :: "string option"
  row_cc2 :: "string option"
  row_admin1_code :: "string option"
  row_admin2_code :: "string option"
  row_admin3_code :: "string option"
  row_admin4_code :: "string option"
  row_population :: "string option"
  row_elevation :: "string option"
  row_dem :: "string option"
  row_timezone :: "string option"
  row_modification_date :: "string option"

text \<open>
  What PostgreSQL makes of a parameter, \<open>None\<close> when it raises an error: a text for a
  \<^verbatim>\<open>VARCHAR(n)\<close> or \<^verbatim>\<open>CHAR(n)\<close> column must fit, but for blanks at its end, which
  are cut off (a NULL is stored as NULL); a \<^verbatim>\<open>CHAR(n)\<close> value is padded with blanks
  to \<open>n\<close> characters; a number for a \<^verbatim>\<open>BIGINT\<close> column must be in range. How it
  reads \<^verbatim>\<open>parseFloat\<close> of a text into the two \<^verbatim>\<open>DECIMAL\<close> columns, and a text
  into the \<^verbatim>\<open>DATE\<close> column, is left a parameter (\<open>Some None\<close> is a stored NULL).
\<close>

definition pg_varchar :: "nat \<Rightarrow> string option \<Rightarrow> string option option" where
  "pg_varchar n v =
     (case v of None \<Rightarrow> Some None
      | Some s \<Rightarrow>
          if length s \<le> n then Some (Some s)
          else if list_all (\<lambda>c. c = CHR '' '') (drop n s) then Some (Some (take n s))
          else None)"

definition pg_char :: "nat \<Rightarrow> string option \<Rightarrow> string option option" where
  "pg_char n v =
     (case pg_varchar n v of
        None \<Rightarrow> None
      | Some None \<Rightarrow> Some None
      | Some (Some s) \<Rightarrow> Some (Some (s @ replicate (n - length s) (CHR '' ''))))"

definition pg_bigint :: "int option \<Rightarrow> int option" where
  "pg_bigint v =
     (case v of None \<Rightarrow> None
      | Some n \<Rightarrow> if - (2 ^ 63) \<le> n \<and> n < 2 ^ 63 then Some n else None)"

record pg_input =
  latitude_in :: "string option \<Rightarrow> rat option option"
  longitude_in :: "string option \<Rightarrow> rat option option"
  date_in :: "string \<Rightarrow> string option"

text \<open>
  The fifteen parameters of the insert (lines 479-485), as the row the statement stores,
  or \<open>None\<close> when PostgreSQL rejects one of them. \<^verbatim>\<open>parseInt(undefined)\<close> is
  \<^verbatim>\<open>NaN\<close>.
\<close>

definition optional_int :: "string option \<Rightarrow> (int option \<Rightarrow> int option) \<Rightarrow> int option option" where
  "optional_int v column =
     (if truthy v then map_option Some (column (parseInt (COALESCE v []))) else Some None)"

definition city_of_row :: "pg_input \<Rightarrow> city_row \<Rightarrow> city option" where
  "city_of_row pgin row =
     (case (pg_integer (case row_geonameid row of None \<Rightarrow> None | Some s \<Rightarrow> parseInt s),
            pg_varchar 200 (row_name row), pg_varchar 200 (row_asciiname row)) of
        (Some geonameid, Some (Some name), Some asciiname) \<Rightarrow>
          (case (latitude_in pgin (row_latitude row), longitude_in pgin (row_longitude row),
                 pg_char 1 (row_feature_class row), pg_varchar 10 (row_feature_code row)) of
             (Some latitude, Some longitude, Some feature_class, Some feature_code) \<Rightarrow>
               (case (pg_char 2 (row_country_code row), pg_varchar 20 (row_admin1_code row),
                      optional_int (row_population row) pg_bigint,
                      optional_int (row_elevation row) pg_integer) of
                  (Some country_code, Some admin1_code, Some population, Some elevation) \<Rightarrow>
                    (case (pg_varchar 40 (row_timezone row),
                           if truthy (row_modification_date row)
                           then map_option Some (date_in pgin (COALESCE (row_modification_date row) []))
                           else Some None) of
                       (Some timezone, Some modification_date) \<Rightarrow>
                         Some \<lparr> c_geonameid = geonameid, c_name = name, c_ascii_name = asciiname,
                                c_alternatenames = row_alternatenames row,
                                c_latitude = latitude, c_longitude = longitude,
                                c_feature_class = feature_class, c_feature_code = feature_code,
                                c_country_code = country_code, c_admin1_code = admin1_code,
                                c_admin1_name = None, c_population = population,
                                c_elevation = elevation, c_timezone = timezone,
                                c_modification_date = modification_date \<rparr>
                     | _ \<Rightarrow> None)
                | _ \<Rightarrow> None)
           | _ \<Rightarrow> None)
      | _ \<Rightarrow> None)"

text \<open>
  \<^verbatim>\<open>loadCitiesData\<close> on the rows of the dump: the count of the existing rows first,
  and nothing more when there is one; else one insert per row, a rejected one caught and
  skipped. The handler of \<^verbatim>\<open>data\<close> does not wait for a statement before the next
  row; the statements are taken in the order of the rows, and all as applied when the load
  returns. Fetching the dump is not modelled.
\<close>

definition import_city :: "pg_input \<Rightarrow> city_row \<Rightarrow> db \<Rightarrow> db" where
  "import_city pgin row d =
     (case city_of_row pgin row of
        None \<Rightarrow> d\<lparr>queries := queries d + 1\<rparr>
      | Some c \<Rightarrow> insert_city c d)"

definition loadCitiesData :: "pg_input \<Rightarrow> city_row list \<Rightarrow> db \<Rightarrow> db" where
  "loadCitiesData pgin rows d =
     (let existingCount = length (cities d); d1 = d\<lparr>queries := queries d + 1\<rparr>
      in if existingCount > 0 then d1 else fold (import_city pgin) rows d1)"

section \<open>The loader: alternate names\<close>

text \<open>
  \<^verbatim>\<open>SUPPORTED_LANGUAGES\<close> from the environment variable: \<^verbatim>\<open>null\<close> when it is
  unset or empty, else its comma-separated parts, trimmed and in lower case.
\<close>

definition SUPPORTED_LANGUAGES :: "externals \<Rightarrow> string option \<Rightarrow> string list option" where
  "SUPPORTED_LANGUAGES ext env =
     (if truthy env
      then Some (map (\<lambda>lang. toLowerCase ext (trim lang)) (split (CHR '','') (COALESCE env [])))
      else None)"

definition BATCH_SIZE :: nat where
  "BATCH_SIZE = 100"

record alt_row =
  ar_alternatenameid :: string
  ar_geonameid :: string
  ar_isolanguage :: string
  ar_alternate_name :: string
  ar_is_preferred_name :: string
  ar_is_short_name :: string
  ar_is_colloquial :: string
  ar_is_historic :: string

text \<open>
  The state of \<^verbatim>\<open>loadAlternateNames\<close>: its counters, the batch, and the database.
\<close>

record alt_load =
  ld_count :: nat
  ld_processed :: nat
  ld_batch :: "alt_row list"
  ld_db :: db

text \<open>
  \<^verbatim>\<open>processRow\<close> (lines 536-566). A statement PostgreSQL rejects (an id that is
  \<^verbatim>\<open>NaN\<close> or out of range) is caught and the row counts 0.
\<close>

definition alternate_name_of_row :: "alt_row \<Rightarrow> alternate_name option" where
  "alternate_name_of_row row =
     (case (pg_integer (parseInt (ar_alternatenameid row)), pg_integer (parseInt (ar_geonameid row)),
            pg_varchar 7 (Some (ar_isolanguage row)), pg_varchar 400 (Some (ar_alternate_name row))) of
        (Some alternatenameid, Some geonameid, Some isolanguage, Some alternate_name) \<Rightarrow>
          Some \<lparr> alt_alternatenameid = alternatenameid, alt_geonameid = Some geonameid,
                 alt_isolanguage = isolanguage, alt_alternate_name = alternate_name,
                 alt_is_preferred_name = Some (ar_is_preferred_name row = ''1''),
                 alt_is_short_name = Some (ar_is_short_name row = ''1''),
                 alt_is_colloquial = Some (ar_is_colloquial row = ''1''),
                 alt_is_historic = Some (ar_is_historic row = ''1'') \<rparr>
      | _ \<Rightarrow> None)"

definition processRow :: "alt_row \<Rightarrow> db \<Rightarrow> nat \<times> db" where
  "processRow row d =
     (case pg_integer (parseInt (ar_geonameid row)) of
        None \<Rightarrow> (0, d\<lparr>queries := queries d + 1\<rparr>)
      | Some geonameid \<Rightarrow>
          (let cityExists = filter (\<lambda>c. c_geonameid c = geonameid) (cities d);
               d1 = d\<lparr>queries := queries d + 1\<rparr>
           in if length cityExists > 0
              then (case alternate_name_of_row row of
                      None \<Rightarrow> (0, d1\<lparr>queries := queries d1 + 1\<rparr>)
                    | Some a \<Rightarrow> (1, insert_alternate_name a d1))
              else (0, d1)))"

text \<open>\<^verbatim>\<open>processBatch\<close> (lines 569-589): the rows one after the other.\<close>

fun processBatch :: "alt_row list \<Rightarrow> db \<Rightarrow> nat \<times> db" where
  "processBatch [] d = (0, d)"
| "processBatch (row # batchData) d =
     (let (n, d1) = processRow row d; (batchCount, d2) = processBatch batchData d1
      in (n + batchCount, d2))"

text \<open>
  \<^verbatim>\<open>processLine\<close> (lines 604-641), with the allow-list \<open>langs\<close>. It only counts the
  line and may push a row on the batch.
\<close>

definition processLine ::
  "externals \<Rightarrow> string list option \<Rightarrow> string \<Rightarrow> alt_load \<Rightarrow> alt_load" where
  "processLine ext langs line st =
     (let st1 = st\<lparr>ld_processed := ld_processed st + 1\<rparr>;
          columns = split (CHR 0x09) line
      in if length columns < 8 then st1
         else
           (let row = \<lparr> ar_alternatenameid = columns ! 0, ar_geonameid = columns ! 1,
                        ar_isolanguage = columns ! 2, ar_alternate_name = columns ! 3,
                        ar_is_preferred_name = columns ! 4, ar_is_short_name = columns ! 5,
                        ar_is_colloquial = columns ! 6, ar_is_historic = columns ! 7 \<rparr>
            in if ar_isolanguage row \<noteq> [] \<and> length (ar_isolanguage row) \<le> 7 \<and>
                  ar_alternate_name row \<noteq> [] \<and> length (ar_alternate_name row) \<le> 400
               then
                 (let shouldInclude =
                        (case langs of None \<Rightarrow> True
                         | Some ls \<Rightarrow> toLowerCase ext (ar_isolanguage row) \<in> set ls \<or> ''all'' \<in> set ls)
                  in if shouldInclude then st1\<lparr>ld_batch := ld_batch st1 @ [row]\<rparr> else st1)
               else st1))"

text \<open>
  One turn of the loop of \<^verbatim>\<open>processQueue\<close> (lines 648-660) when nothing else happens
  during its \<^verbatim>\<open>await\<close>: the next line of the queue, then the batch once it has
  reached \<^verbatim>\<open>BATCH_SIZE\<close>.
\<close>

definition process_queued ::
  "externals \<Rightarrow> string list option \<Rightarrow> string \<Rightarrow> alt_load \<Rightarrow> alt_load" where
  "process_queued ext langs line st =
     (let st1 = processLine ext langs line st
      in if length (ld_batch st1) \<ge> BATCH_SIZE
         then (let (batchCount, d1) = processBatch (ld_batch st1) (ld_db st1)
               in st1\<lparr>ld_count := ld_count st1 + batchCount, ld_batch := [], ld_db := d1\<rparr>)
         else st1)"

section \<open>The loader: the events of the alternate-names load\<close>

text \<open>
  \<^verbatim>\<open>loadAlternateNames\<close> as the handlers it registers. A handler runs from an event to
  its next \<^verbatim>\<open>await\<close> without interruption; the state between two such runs holds the
  lines the reader has not delivered yet, the reader's \<open>paused\<close> and \<open>closed\<close> flags,
  the variables \<^verbatim>\<open>lineQueue\<close>, \<^verbatim>\<open>isProcessing\<close>, \<^verbatim>\<open>count\<close>,
  \<^verbatim>\<open>processed\<close> and \<^verbatim>\<open>batch\<close>, the database, the number of callbacks
  \<^verbatim>\<open>setImmediate\<close> has scheduled, the number of \<^verbatim>\<open>then\<close> callbacks of the
  \<^verbatim>\<open>line\<close> handler whose promise is settled, the call of \<^verbatim>\<open>processQueue\<close> that is
  suspended at its \<^verbatim>\<open>await processBatch(batch)\<close> (with what called it), the batch the
  handler of \<^verbatim>\<open>close\<close> has passed to its own \<^verbatim>\<open>await processBatch(batch)\<close> while
  it is suspended there, and whether it has resolved the promise. The variable
  \<^verbatim>\<open>stream\<close> stays \<^verbatim>\<open>null\<close>, so \<^verbatim>\<open>processBatch\<close> pauses and resumes nothing.
\<close>

datatype caller = From_immediate | From_line | From_close

record loader_state =
  ev_input :: "string list"
  ev_paused :: bool
  ev_closed :: bool
  ev_lineQueue :: "string list"
  ev_isProcessing :: bool
  ev_load :: alt_load
  ev_immediates :: nat
  ev_thens :: nat
  ev_awaiting :: "caller option"
  ev_closing :: "alt_row list option"
  ev_resolved :: bool

text \<open>
  The loop of \<^verbatim>\<open>processQueue\<close> (lines 648-660) from its head to the next
  \<^verbatim>\<open>await\<close> (\<open>True\<close>) or to its end (\<open>False\<close>), on the queue and the counters.
\<close>

fun processQueue_loop ::
  "externals \<Rightarrow> string list option \<Rightarrow> string list \<Rightarrow> alt_load
   \<Rightarrow> bool \<times> string list \<times> alt_load" where
  "processQueue_loop ext langs [] ld = (False, [], ld)"
| "processQueue_loop ext langs (line # lineQueue) ld =
     (let ld1 = processLine ext langs line ld
      in if length (ld_batch ld1) \<ge> BATCH_SIZE then (True, lineQueue, ld1)
         else processQueue_loop ext langs lineQueue ld1)"

text \<open>
  What follows the return of a call of \<^verbatim>\<open>processQueue\<close>: nothing for
  \<^verbatim>\<open>setImmediate\<close>; for the \<^verbatim>\<open>line\<close> handler its \<^verbatim>\<open>then\<close> callback
  (lines 671-675) is due; the \<^verbatim>\<open>close\<close> handler goes on (lines 686-693), starts
  \<^verbatim>\<open>processBatch\<close> on a batch that is not empty and else resolves.
\<close>

definition settle :: "caller \<Rightarrow> loader_state \<Rightarrow> loader_state" where
  "settle caller st =
     (case caller of
        From_immediate \<Rightarrow> st
      | From_line \<Rightarrow> st\<lparr>ev_thens := ev_thens st + 1\<rparr>
      | From_close \<Rightarrow>
          if length (ld_batch (ev_load st)) > 0
          then st\<lparr>ev_closing := Some (ld_batch (ev_load st))\<rparr>
          else st\<lparr>ev_resolved := True\<rparr>)"

definition run_loop ::
  "externals \<Rightarrow> string list option \<Rightarrow> caller \<Rightarrow> loader_state \<Rightarrow> loader_state" where
  "run_loop ext langs caller st =
     (case processQueue_loop ext langs (ev_lineQueue st) (ev_load st) of
        (True, lineQueue, ld) \<Rightarrow>
          st\<lparr>ev_lineQueue := lineQueue, ev_load := ld, ev_paused := True,
             ev_awaiting := Some caller\<rparr>
      | (False, lineQueue, ld) \<Rightarrow>
          settle caller (st\<lparr>ev_lineQueue := lineQueue, ev_load := ld, ev_isProcessing := False\<rparr>))"

text \<open>
  A call of \<^verbatim>\<open>processQueue\<close> (lines 643-663) up to its first \<^verbatim>\<open>await\<close> or its
  return, and its continuation after \<^verbatim>\<open>await processBatch(batch)\<close>: the count, the
  empty batch, \<^verbatim>\<open>rl.resume()\<close>, and the loop again. A batch takes effect on the
  database when its \<^verbatim>\<open>processBatch\<close> completes.
\<close>

definition processQueue ::
  "externals \<Rightarrow> string list option \<Rightarrow> caller \<Rightarrow> loader_state \<Rightarrow> loader_state" where
  "processQueue ext langs caller st =
     (if ev_isProcessing st then settle caller st
      else run_loop ext langs caller (st\<lparr>ev_isProcessing := True\<rparr>))"

definition batch_applied ::
  "externals \<Rightarrow> string list option \<Rightarrow> caller \<Rightarrow> loader_state \<Rightarrow> loader_state" where
  "batch_applied ext langs caller st =
     (let (batchCount, d1) = processBatch (ld_batch (ev_load st)) (ld_db (ev_load st))
      in run_loop ext langs caller
           (st\<lparr>ev_load := (ev_load st)\<lparr>ld_count := ld_count (ev_load st) + batchCount,
                                        ld_batch := [], ld_db := d1\<rparr>,
               ev_paused := False, ev_awaiting := None\<rparr>))"

text \<open>The handler of \<^verbatim>\<open>line\<close> (lines 665-680) and its \<^verbatim>\<open>then\<close> callback.\<close>

definition line_handler ::
  "externals \<Rightarrow> string list option \<Rightarrow> string \<Rightarrow> loader_state \<Rightarrow> loader_state" where
  "line_handler ext langs line st =
     (let st1 = st\<lparr>ev_lineQueue := ev_lineQueue st @ [line]\<rparr>
      in if length (ev_lineQueue st1) > 1000
         then processQueue ext langs From_line (st1\<lparr>ev_paused := True\<rparr>)
         else st1\<lparr>ev_immediates := ev_immediates st1 + 1\<rparr>)"

definition then_callback :: "loader_state \<Rightarrow> loader_state" where
  "then_callback st =
     (let st1 = st\<lparr>ev_thens := ev_thens st - 1\<rparr>
      in if length (ev_lineQueue st1) < 500 then st1\<lparr>ev_paused := False\<rparr> else st1)"

text \<open>
  The handler of \<^verbatim>\<open>close\<close> (lines 682-694) up to its first \<^verbatim>\<open>await\<close>, and its
  continuation after \<^verbatim>\<open>await processBatch(batch)\<close> on the batch it passed, which
  leaves the variable \<^verbatim>\<open>batch\<close> as it is.
\<close>

definition close_handler ::
  "externals \<Rightarrow> string list option \<Rightarrow> loader_state \<Rightarrow> loader_state" where
  "close_handler ext langs st = processQueue ext langs From_close (st\<lparr>ev_closed := True\<rparr>)"

definition rest_applied :: "alt_row list \<Rightarrow> loader_state \<Rightarrow> loader_state" where
  "rest_applied batchData st =
     (let (batchCount, d1) = processBatch batchData (ld_db (ev_load st))
      in st\<lparr>ev_load := (ev_load st)\<lparr>ld_count := ld_count (ev_load st) + batchCount, ld_db := d1\<rparr>,
            ev_closing := None, ev_resolved := True\<rparr>)"

text \<open>
  The state when the reader is created: the count of the existing rows has been sent.
\<close>

definition reader_created :: "string list \<Rightarrow> db \<Rightarrow> loader_state" where
  "reader_created lines d =
     \<lparr> ev_input = lines, ev_paused = False, ev_closed = False, ev_lineQueue = [],
       ev_isProcessing = False,
       ev_load = \<lparr> ld_count = 0, ld_processed = 0, ld_batch = [],
                   ld_db = d\<lparr>queries := queries d + 1\<rparr> \<rparr>,
       ev_immediates = 0, ev_thens = 0, ev_awaiting = None, ev_closing = None,
       ev_resolved = False \<rparr>"

text \<open>
  The events, and what each does to the state; an event that cannot occur in a state
  leaves it. The reader delivers its next line (\<open>Line\<close>), or \<^verbatim>\<open>close\<close> after the last
  one (\<open>Close\<close>); a callback of \<^verbatim>\<open>setImmediate\<close> runs (\<open>Immediate\<close>); a
  \<^verbatim>\<open>then\<close> callback runs (\<open>Then\<close>); the batch \<^verbatim>\<open>processQueue\<close> waits for is
  applied (\<open>Batch_applied\<close>), or the one the handler of \<^verbatim>\<open>close\<close> waits for
  (\<open>Rest_applied\<close>). Which event comes when is for Node's \<^verbatim>\<open>readline\<close>, its event
  loop and the database to say, and is given to the model as a schedule.
  \<^verbatim>\<open>rl.pause()\<close> keeps the reader from reading on; it does not keep it from
  delivering the lines of the chunk it has read, nor from closing once a call of
  \<^verbatim>\<open>rl.resume()\<close> has let it find the end of the input. The model lets both events
  occur whether the reader is paused or not.
\<close>

datatype event = Line | Close | Immediate | Then | Batch_applied | Rest_applied

definition fire :: "externals \<Rightarrow> string list option \<Rightarrow> event \<Rightarrow> loader_state \<Rightarrow> loader_state" where
  "fire ext langs e st =
     (case e of
        Line \<Rightarrow>
          (case ev_input st of
             [] \<Rightarrow> st
           | line # rest \<Rightarrow>
               if ev_closed st then st else line_handler ext langs line (st\<lparr>ev_input := rest\<rparr>))
      | Close \<Rightarrow>
          if ev_input st = [] \<and> \<not> ev_closed st then close_handler ext langs st else st
      | Immediate \<Rightarrow>
          if ev_immediates st > 0
          then processQueue ext langs From_immediate (st\<lparr>ev_immediates := ev_immediates st - 1\<rparr>)
          else st
      | Then \<Rightarrow> if ev_thens st > 0 then then_callback st else st
      | Batch_applied \<Rightarrow>
          (case ev_awaiting st of None \<Rightarrow> st | Some caller \<Rightarrow> batch_applied ext langs caller st)
      | Rest_applied \<Rightarrow>
          (case ev_closing st of None \<Rightarrow> st | Some batchData \<Rightarrow> rest_applied batchData st))"

text \<open>
  \<^verbatim>\<open>loadAlternateNames\<close> on the lines of the dump, under a schedule of events: the
  count of the existing rows first, and nothing more when there is one; else the reader is
  created and the events take their course. The result is the database the events of the
  schedule leave.
\<close>

definition loadAlternateNames ::
  "externals \<Rightarrow> string list option \<Rightarrow> string list \<Rightarrow> event list \<Rightarrow> db \<Rightarrow> db" where
  "loadAlternateNames ext langs lines schedule d =
     (let existingCount = length (alternate_names d); d1 = d\<lparr>queries := queries d + 1\<rparr>
      in if existingCount > 0 then d1
         else ld_db (ev_load (fold (fire ext langs) schedule (reader_created lines d))))"

section \<open>Stand-ins for the parameters\<close>

text \<open>
  For running the code on examples: the case mapping of the ASCII letters
  (\<open>A\<close>..\<open>Z\<close> against \<open>a\<close>..\<open>z\<close>), which both PostgreSQL and JavaScript apply to
  them and which leaves every other code as it is; and \<^verbatim>\<open>pg_trgm\<close> as its
  documentation describes it: the lower-cased string is cut into words of letters and
  digits, each word is padded with two blanks before and one after, and the similarity of
  two strings is the number of trigrams they share over the number of trigrams of either.
  The operator \<^verbatim>\<open>%\<close> compares it with the default threshold 0.3. The plans hand over
  the rows in the order of the tables.
\<close>

definition lower_char :: "char \<Rightarrow> char" where
  "lower_char c =
     (let n = (of_char c :: nat) in if 65 \<le> n \<and> n \<le> 90 then char_of (n + 32) else c)"

definition upper_char :: "char \<Rightarrow> char" where
  "upper_char c =
     (let n = (of_char c :: nat) in if 97 \<le> n \<and> n \<le> 122 then char_of (n - 32) else c)"

definition ascii_lower :: "string \<Rightarrow> string" where
  "ascii_lower s = map lower_char s"

definition ascii_upper :: "string \<Rightarrow> string" where
  "ascii_upper s = map upper_char s"

definition is_alnum :: "char \<Rightarrow> bool" where
  "is_alnum c =
     (let n = (of_char c :: nat) in
      (48 \<le> n \<and> n \<le> 57) \<or> (65 \<le> n \<and> n \<le> 90) \<or> (97 \<le> n \<and> n \<le> 122))"

fun trgm_words :: "string \<Rightarrow> string \<Rightarrow> string list" where
  "trgm_words w [] = (if w = [] then [] else [w])"
| "trgm_words w (c # s) =
     (if is_alnum c then trgm_words (w @ [c]) s
      else if w = [] then trgm_words [] s
      else w # trgm_words [] s)"

fun windows3 :: "string \<Rightarrow> string list" where
  "windows3 (a # b # c # s) = [a, b, c] # windows3 (b # c # s)"
| "windows3 s = []"

definition trigrams :: "string \<Rightarrow> string list" where
  "trigrams s =
     remdups (concat (map (\<lambda>w. windows3 (''  '' @ w @ '' '')) (trgm_words [] (ascii_lower s))))"

definition trgm_similarity :: "string \<Rightarrow> string \<Rightarrow> rat" where
  "trgm_similarity a b =
     (let ta = trigrams a; tb = trigrams b; n = length (filter (\<lambda>t. t \<in> set tb) ta)
      in if ta = [] \<or> tb = [] then 0
         else of_nat n / of_nat (length ta + length tb - n))"

definition example_ext :: externals where
  "example_ext =
     \<lparr> LOWER = ascii_lower,
       similarity = trgm_similarity,
       similarity_op = (\<lambda>a b. 3 / 10 \<le> trgm_similarity a b),
       city_plan = (\<lambda>row. 0),
       country_plan = (\<lambda>row. 0),
       toUpperCase = ascii_upper,
       toLowerCase = ascii_lower \<rparr>"

section \<open>The claims in the words of the specification\<close>

text \<open>
  The specification's ladder, top to bottom, first match wins: exact primary name, exact
  ascii name, exact alternate name, substring of the primary name, of the ascii name, of
  an alternate name, and fuzzy otherwise. The six conditions are the ones the queries
  test: equality of the lower-cased strings, and \<^verbatim>\<open>ILIKE\<close> of the pattern
  \<^verbatim>\<open>%q%\<close>. Countries have no ascii tiers.
\<close>

datatype tier =
  Fuzzy | Substring_alternate | Substring_ascii | Substring_primary
  | Exact_alternate | Exact_ascii | Exact_primary




definition spec_ladder :: "bool \<Rightarrow> bool \<Rightarrow> bool \<Rightarrow> bool \<Rightarrow> bool \<Rightarrow> bool \<Rightarrow> tier" where
  "spec_ladder exact_primary exact_ascii exact_alternate
               substring_primary substring_ascii substring_alternate =
     (if exact_primary then Exact_primary
      else if exact_ascii then Exact_ascii
      else if exact_alternate then Exact_alternate
      else if substring_primary then Substring_primary
      else if substring_ascii then Substring_ascii
      else if substring_alternate then Substring_alternate
      else Fuzzy)"


definition spec_country_tier :: "externals \<Rightarrow> db \<Rightarrow> string \<Rightarrow> string \<Rightarrow> string \<Rightarrow> tier" where
  "spec_country_tier ext d q code name =
     spec_ladder
       (LOWER ext name = LOWER ext q)
       False
       (list_ex (\<lambda>alt. ca_country_code alt = Some code \<and>
                  sql_true (\<lambda>n. LOWER ext n = LOWER ext q) (ca_name alt))
          (country_alternate_names d))
       (ILIKE ext name (like_pattern q))
       False
       (list_ex (\<lambda>alt. ca_country_code alt = Some code \<and>
                  sql_true (\<lambda>n. ILIKE ext n (like_pattern q)) (ca_name alt))
          (country_alternate_names d))"

text \<open>
  A search candidate: a city or a country, with the columns its \<^verbatim>\<open>CASE\<close> reads and
  the alternate-name sides of the joined rows of its group; its score by the query, and
  its tier by the specification.
\<close>

datatype candidate =
    City_candidate int string "string option" "alternate_name option list"
  | Country_candidate string string "country_alternate_name option list"



text \<open>
  The specification's filter on a line of the alternate-names dump: at least 8 fields, a
  language code that is not empty and has at most 7 characters, a name of at most 400
  characters, and, under an allow-list, a language of the list or the wildcard
  \<^verbatim>\<open>all\<close> in it. The language is looked up in lower case, as the list is kept.
\<close>

definition spec_row_kept :: "externals \<Rightarrow> string list option \<Rightarrow> string \<Rightarrow> bool" where
  "spec_row_kept ext langs line =
     (let columns = split (CHR 0x09) line
      in 8 \<le> length columns \<and>
         columns ! 2 \<noteq> [] \<and> length (columns ! 2) \<le> 7 \<and>
         length (columns ! 3) \<le> 400 \<and>
         (case langs of None \<Rightarrow> True
          | Some ls \<Rightarrow> toLowerCase ext (columns ! 2) \<in> set ls \<or> ''all'' \<in> set ls))"

text \<open>
  The great-circle distance of the specification, in kilometres, between two points given
  as (latitude, longitude) in degrees, on a sphere of radius \<open>R\<close> kilometres (the
  haversine formula); the mean radius of the Earth, and its polar radius, the shortest.
\<close>

definition spec_great_circle_km :: "real \<Rightarrow> real \<times> real \<Rightarrow> real \<times> real \<Rightarrow> real" where
  "spec_great_circle_km R = (\<lambda>(lat1, lon1) (lat2, lon2).
     2 * R *
       arcsin (sqrt ((sin ((lat2 - lat1) * pi / 360))\<^sup>2 +
                     cos (lat1 * pi / 180) * cos (lat2 * pi / 180) *
                       (sin ((lon2 - lon1) * pi / 360))\<^sup>2)))"

definition mean_radius_km :: real where
  "mean_radius_km = 63710088 / 10000"

definition polar_radius_km :: real where
  "polar_radius_km = 6356752 / 1000"

section \<open>Example data\<close>

text \<open>
  Two rows of the country list of \<^verbatim>\<open>loadCountriesData\<close> (lines 203 and 205), and one
  row of \<^verbatim>\<open>country_alternate_names\<close>, a table no code of the repository fills, that
  names the second of them Congo.
\<close>

definition congo_db :: db where
  "congo_db =
     \<lparr> countries =
         [\<lparr> co_country_code = ''CD'', co_name = ''Democratic Republic of the Congo'',
             co_latitude = Some 0, co_longitude = Some 25, co_spoken_languages = Some ''fr'',
             co_name_translations = Some [(''en'', ''Democratic Republic of the Congo'')] \<rparr>,
          \<lparr> co_country_code = ''CG'', co_name = ''Republic of the Congo'',
             co_latitude = Some (- 1), co_longitude = Some 15, co_spoken_languages = Some ''fr'',
             co_name_translations = Some [(''en'', ''Republic of the Congo'')] \<rparr>],
       cities = [], alternate_names = [],
       country_alternate_names =
         [\<lparr> ca_id = 1, ca_country_code = Some ''CG'', ca_isolanguage = Some ''fr'',
             ca_name = Some ''Congo'' \<rparr>],
       queries = 0 \<rparr>"

text \<open>
  Three cities of France, Vienna with three alternate names, and Pristina, whose country
  code XK is not in the country list of \<^verbatim>\<open>loadCountriesData\<close>.
\<close>

definition example_city ::
  "int \<Rightarrow> string \<Rightarrow> string \<Rightarrow> rat \<Rightarrow> rat \<Rightarrow> string \<Rightarrow> city" where
  "example_city geonameid name country_code latitude longitude timezone =
     \<lparr> c_geonameid = geonameid, c_name = name, c_ascii_name = Some name,
       c_alternatenames = Some [], c_latitude = Some latitude, c_longitude = Some longitude,
       c_feature_class = Some ''P'', c_feature_code = Some ''PPL'',
       c_country_code = Some country_code, c_admin1_code = Some ''00'', c_admin1_name = None,
       c_population = None, c_elevation = None, c_timezone = Some timezone,
       c_modification_date = None \<rparr>"

definition example_alternate_name :: "int \<Rightarrow> int \<Rightarrow> string \<Rightarrow> string \<Rightarrow> alternate_name" where
  "example_alternate_name alternatenameid geonameid isolanguage name =
     \<lparr> alt_alternatenameid = alternatenameid, alt_geonameid = Some geonameid,
       alt_isolanguage = Some isolanguage, alt_alternate_name = Some name,
       alt_is_preferred_name = Some False, alt_is_short_name = Some False,
       alt_is_colloquial = Some False, alt_is_historic = Some False \<rparr>"

definition pristina :: city where
  "pristina = example_city 786714 ''Pristina'' ''XK'' (4267272 / 100000) (2116688 / 100000)
                ''Europe/Belgrade''"

definition example_db :: db where
  "example_db =
     \<lparr> countries =
         [\<lparr> co_country_code = ''AT'', co_name = ''Austria'',
             co_latitude = Some (4733 / 100), co_longitude = Some (1333 / 100),
             co_spoken_languages = Some ''de'',
             co_name_translations = Some [(''en'', ''Austria'')] \<rparr>,
          \<lparr> co_country_code = ''FR'', co_name = ''France'',
             co_latitude = Some (462276 / 10000), co_longitude = Some (22137 / 10000),
             co_spoken_languages = Some ''fr'',
             co_name_translations = Some [(''en'', ''France''), (''es'', ''Francia''),
               (''fr'', ''France''), (''de'', ''Frankreich'')] \<rparr>],
       cities =
         [example_city 2761369 ''Vienna'' ''AT'' (4820849 / 100000) (1637208 / 100000)
            ''Europe/Vienna'',
          example_city 2969679 ''Versailles'' ''FR'' (4880359 / 100000) (213424 / 100000)
            ''Europe/Paris'',
          example_city 2988507 ''Paris'' ''FR'' (4885341 / 100000) (23488 / 10000)
            ''Europe/Paris'',
          example_city 3031137 ''Boulogne-Billancourt'' ''FR'' (4883545 / 100000)
            (224128 / 100000) ''Europe/Paris'',
          pristina],
       alternate_names =
         [example_alternate_name 1 2761369 ''de'' ''Wien'',
          example_alternate_name 2 2761369 ''fr'' ''Vienne'',
          example_alternate_name 3 2761369 ''hu'' ''Becs''],
       country_alternate_names = [],
       queries = 0 \<rparr>"

definition example_request :: "string \<Rightarrow> search_request" where
  "example_request q =
     \<lparr> req_q = Some q, req_country = None, req_type = None, req_autocomplete = None,
       req_limit = None \<rparr>"

text \<open>
  Stand-ins for the reverse lookup on the examples: the database's reading of six decimal
  texts; the distances in metres on the WGS 84 spheroid, on which PostGIS measures between
  geography points, to a tenth of a millimetre, from the point (48.85, 2.35) to the cities
  of the example and from the point (0, 0) to the point 0.4515 degrees north of it (any
  other pair of points is put half the globe apart, out of every radius of the examples);
  and the quotient taken exactly, which the two decimals of the examples do not tell from
  the rounded one.
\<close>

definition example_number :: "string \<Rightarrow> rat option" where
  "example_number s =
     map_of [(''48.85'', 4885 / 100), (''2.35'', 235 / 100), (''50'', 50), (''10'', 10),
             (''0'', 0), (''2000'', 2000)] s"

definition example_distances :: "((rat \<times> rat) \<times> (rat \<times> rat)) \<rightharpoonup> rat" where
  "example_distances =
     map_of
       [(((235 / 100, 4885 / 100), (1637208 / 100000, 4820849 / 100000)), 10366321882 / 10000),
        (((235 / 100, 4885 / 100), (213424 / 100000, 4880359 / 100000)), 166617053 / 10000),
        (((235 / 100, 4885 / 100), (23488 / 10000, 4885341 / 100000)), 3893071 / 10000),
        (((235 / 100, 4885 / 100), (224128 / 100000, 4883545 / 100000)), 81426387 / 10000),
        (((235 / 100, 4885 / 100), (2116688 / 100000, 4267272 / 100000)), 16111305756 / 10000),
        (((0, 0), (0, 4515 / 10000)), 499242959 / 10000)]"

definition example_postgis :: postgis where
  "example_postgis =
     \<lparr> coordinate_in = example_number, radius_in = example_number,
       ST_Distance = (\<lambda>a b. COALESCE (example_distances (a, b)) 20000000),
       float8_div = (\<lambda>x y. x / y),
       parseFloat = example_number \<rparr>"

definition example_reverse_request :: reverse_request where
  "example_reverse_request = \<lparr> req_lat = Some ''48.85'', req_lon = Some ''2.35'', req_radius = None \<rparr>"

text \<open>
  A place 0.4515 degrees north of the point (0, 0), and the request for the places within
  the default radius of that point.
\<close>

definition meridian_db :: db where
  "meridian_db =
     \<lparr> countries =
         [\<lparr> co_country_code = ''GH'', co_name = ''Ghana'',
             co_latitude = Some 8, co_longitude = Some (- 2), co_spoken_languages = Some ''en'',
             co_name_translations = Some [(''en'', ''Ghana'')] \<rparr>],
       cities = [example_city 1 ''Meridian Rock'' ''GH'' (4515 / 10000) 0 ''Africa/Accra''],
       alternate_names = [], country_alternate_names = [], queries = 0 \<rparr>"

definition meridian_request :: reverse_request where
  "meridian_request = \<lparr> req_lat = Some ''0'', req_lon = Some ''0'', req_radius = None \<rparr>"

text \<open>
  Lines of the dump for the examples: tab-separated fields; two alternate names of Vienna
  and one whose language code has eight characters; the rows \<^verbatim>\<open>processLine\<close>
  builds of the first two, and the row of a name of a place that is not stored.
\<close>

definition tsv :: "string list \<Rightarrow> string" where
  "tsv columns = (case columns of [] \<Rightarrow> [] | c # cs \<Rightarrow> c @ concat (map (\<lambda>x. CHR 0x09 # x) cs))"

definition empty_load :: "db \<Rightarrow> alt_load" where
  "empty_load d = \<lparr> ld_count = 0, ld_processed = 0, ld_batch = [], ld_db = d \<rparr>"

definition vienna_line :: string where
  "vienna_line = tsv [''10'', ''2761369'', ''it'', ''Vienna'', ''1'', '''', '''', '''', '''', '''']"

definition wien_line :: string where
  "wien_line = tsv [''13'', ''2761369'', ''de'', ''Wien'', ''1'', '''', '''', '''', '''', '''']"

definition long_language_line :: string where
  "long_language_line = tsv [''12'', ''2761369'', ''wikidata'', ''Q1741'', '''', '''', '''', '''']"

definition vienna_row :: alt_row where
  "vienna_row =
     \<lparr> ar_alternatenameid = ''10'', ar_geonameid = ''2761369'', ar_isolanguage = ''it'',
       ar_alternate_name = ''Vienna'', ar_is_preferred_name = ''1'', ar_is_short_name = [],
       ar_is_colloquial = [], ar_is_historic = [] \<rparr>"

definition wien_row :: alt_row where
  "wien_row =
     \<lparr> ar_alternatenameid = ''13'', ar_geonameid = ''2761369'', ar_isolanguage = ''de'',
       ar_alternate_name = ''Wien'', ar_is_preferred_name = ''1'', ar_is_short_name = [],
       ar_is_colloquial = [], ar_is_historic = [] \<rparr>"

definition orphan_row :: alt_row where
  "orphan_row =
     \<lparr> ar_alternatenameid = ''11'', ar_geonameid = ''999'', ar_isolanguage = ''it'',
       ar_alternate_name = ''Nessuna'', ar_is_preferred_name = [], ar_is_short_name = [],
       ar_is_colloquial = [], ar_is_historic = [] \<rparr>"

text \<open>The row of \<^verbatim>\<open>alternate_names\<close> the insert makes of the Italian name of Vienna.\<close>

definition vienna_italian :: alternate_name where
  "vienna_italian =
     \<lparr> alt_alternatenameid = 10, alt_geonameid = Some 2761369, alt_isolanguage = Some ''it'',
       alt_alternate_name = Some ''Vienna'', alt_is_preferred_name = Some True,
       alt_is_short_name = Some False, alt_is_colloquial = Some False,
       alt_is_historic = Some False \<rparr>"

text \<open>
  The example database before its alternate names are loaded; a dump of 201 lines, two
  hundred times the Italian name of Vienna and then the German one; and two schedules for
  its load. The reader delivers all lines, which are one chunk of the file, and the
  callbacks of \<^verbatim>\<open>setImmediate\<close> run, of which the first starts applying the first
  batch. When that batch is applied, \<^verbatim>\<open>processQueue\<close> resumes the reader, takes the
  next hundred lines and pauses it again for the second batch; the reader, resumed, finds
  the end of the file and closes while the second batch is being applied. Then the
  application \<^verbatim>\<open>processQueue\<close> waits for completes, and the one the handler of
  \<^verbatim>\<open>close\<close> waits for.
\<close>

definition unloaded_db :: db where
  "unloaded_db = example_db\<lparr>alternate_names := []\<rparr>"

definition example_lines :: "string list" where
  "example_lines = replicate 200 vienna_line @ [wien_line]"

definition close_during_batch :: "event list" where
  "close_during_batch =
     replicate 201 Line @ replicate 201 Immediate @ [Batch_applied, Close]"

definition close_during_batch_to_the_end :: "event list" where
  "close_during_batch_to_the_end = close_during_batch @ [Batch_applied, Rest_applied]"

text \<open>
  Stand-ins for PostgreSQL's reading of coordinates and dates, a row of the cities dump,
  and a new seed row for Austria.
\<close>

definition example_pg_input :: pg_input where
  "example_pg_input =
     \<lparr> latitude_in = (\<lambda>v. Some (case v of None \<Rightarrow> None | Some s \<Rightarrow> example_number s)),
       longitude_in = (\<lambda>v. Some (case v of None \<Rightarrow> None | Some s \<Rightarrow> example_number s)),
       date_in = Some \<rparr>"

definition paris_row :: city_row where
  "paris_row =
     \<lparr> row_geonameid = Some ''2988507'', row_name = Some ''Paris'', row_asciiname = Some ''Paris'',
       row_alternatenames = Some [], row_latitude = Some ''48.85'', row_longitude = Some ''2.35'',
       row_feature_class = Some ''P'', row_feature_code = Some ''PPLC'',
       row_country_code = Some ''FR'', row_cc2 = Some [], row_admin1_code = Some ''11'',
       row_admin2_code = Some ''75'', row_admin3_code = Some ''751'', row_admin4_code = Some ''75056'',
       row_population = Some ''2138551'', row_elevation = Some [], row_dem = Some ''42'',
       row_timezone = Some ''Europe/Paris'', row_modification_date = Some ''2024-01-01'' \<rparr>"

definition oesterreich :: country where
  "oesterreich =
     \<lparr> co_country_code = ''AT'', co_name = ''Oesterreich'', co_latitude = Some 47,
       co_longitude = Some 13, co_spoken_languages = Some ''de,hr,hu,sl'',
       co_name_translations = Some [(''de'', ''Oesterreich''), (''en'', ''Austria'')] \<rparr>"


section \<open>The table of the alternate names of countries\<close>

text \<open>
  No function of the loader writes to \<^verbatim>\<open>country_alternate_names\<close>, which
  \<^verbatim>\<open>createTables\<close> creates empty.
\<close>

lemma processLine_other:
  "ld_db (processLine ext langs line st) = ld_db st \<and>
   ld_count (processLine ext langs line st) = ld_count st \<and>
   ld_processed (processLine ext langs line st) = ld_processed st + 1"
  by (auto simp: processLine_def Let_def split: option.splits)

lemma upsert_country_leaves:
  "country_alternate_names (upsert_country excluded d) = country_alternate_names d"
  by (simp add: upsert_country_def)

lemma loadCountriesData_leaves:
  "country_alternate_names (loadCountriesData seed d) = country_alternate_names d"
proof -
  have "country_alternate_names (fold upsert_country seed x) = country_alternate_names x" for x
    by (induction seed arbitrary: x) (simp_all add: upsert_country_leaves)
  then show ?thesis by (simp add: loadCountriesData_def)
qed

lemma loadCitiesData_leaves:
  "country_alternate_names (loadCitiesData pgin rows d) = country_alternate_names d"
proof -
  have i: "country_alternate_names (import_city pgin row x) = country_alternate_names x" for row x
    by (simp add: import_city_def insert_city_def split: option.splits)
  have "country_alternate_names (fold (import_city pgin) rows x) = country_alternate_names x" for x
    by (induction rows arbitrary: x) (simp_all add: i)
  then show ?thesis by (simp add: loadCitiesData_def Let_def)
qed

lemma processRow_leaves:
  "country_alternate_names (snd (processRow row d)) = country_alternate_names d"
  by (simp add: processRow_def insert_alternate_name_def Let_def split: option.splits)

lemma processBatch_leaves:
  "country_alternate_names (snd (processBatch batchData d)) = country_alternate_names d"
proof (induction batchData arbitrary: d)
  case Nil
  then show ?case by simp
next
  case (Cons row batchData)
  from Cons [of "snd (processRow row d)"] processRow_leaves [of row d]
  show ?case by (simp add: split_beta Let_def)
qed

lemma processQueue_loop_db:
  "ld_db (snd (snd (processQueue_loop ext langs lineQueue ld))) = ld_db ld"
  by (induction lineQueue arbitrary: ld) (simp_all add: Let_def processLine_other)

lemma settle_db: "ld_db (ev_load (settle caller st)) = ld_db (ev_load st)"
  by (simp add: settle_def split: caller.splits)

lemma run_loop_db: "ld_db (ev_load (run_loop ext langs caller st)) = ld_db (ev_load st)"
  using processQueue_loop_db [of ext langs "ev_lineQueue st" "ev_load st"]
  by (cases "processQueue_loop ext langs (ev_lineQueue st) (ev_load st)")
     (auto simp: run_loop_def settle_db split: bool.splits)

lemma processQueue_db: "ld_db (ev_load (processQueue ext langs caller st)) = ld_db (ev_load st)"
  by (simp add: processQueue_def settle_db run_loop_db)

lemma fire_leaves:
  "country_alternate_names (ld_db (ev_load (fire ext langs e st)))
   = country_alternate_names (ld_db (ev_load st))"
proof (cases e)
  case Line
  then show ?thesis
    by (simp add: fire_def line_handler_def Let_def processQueue_db split: list.splits)
next
  case Close
  then show ?thesis by (simp add: fire_def close_handler_def processQueue_db)
next
  case Immediate
  then show ?thesis by (simp add: fire_def processQueue_db)
next
  case Then
  then show ?thesis by (simp add: fire_def then_callback_def Let_def)
next
  case Batch_applied
  then show ?thesis
    using processBatch_leaves [of "ld_batch (ev_load st)" "ld_db (ev_load st)"]
    by (simp add: fire_def batch_applied_def split_beta run_loop_db split: option.splits)
next
  case Rest_applied
  then show ?thesis
    using processBatch_leaves [of _ "ld_db (ev_load st)"]
    by (simp add: fire_def rest_applied_def split_beta split: option.splits)
qed

lemma loadAlternateNames_leaves:
  "country_alternate_names (loadAlternateNames ext langs lines schedule d)
   = country_alternate_names d"
proof -
  have "country_alternate_names (ld_db (ev_load (fold (fire ext langs) schedule st)))
        = country_alternate_names (ld_db (ev_load st))" for st
    by (induction schedule arbitrary: st) (simp_all add: fire_leaves)
  then show ?thesis by (simp add: loadAlternateNames_def Let_def reader_created_def)
qed

lemma country_alternate_names_stay_empty:
  "country_alternate_names d = [] \<Longrightarrow>
   country_alternate_names (loadCountriesData seed d) = [] \<and>
   country_alternate_names (loadCitiesData pgin rows d) = [] \<and>
   country_alternate_names (loadAlternateNames ext langs lines schedule d) = []"
  by (simp add: loadCountriesData_leaves loadCitiesData_leaves loadAlternateNames_leaves)

section \<open>The score and the ladder\<close>
















text \<open>
  With a row in \<^verbatim>\<open>country_alternate_names\<close> the country \<^verbatim>\<open>CASE\<close> leaves the
  ladder: for the query \<^verbatim>\<open>congo\<close> the Republic of the Congo, which that row names
  Congo, is on the tier of the exact alternate name and is scored 80.
\<close>

lemma country_case_tests_substring_first:
  "spec_country_tier example_ext congo_db ''congo'' ''CG'' ''Republic of the Congo'' = Exact_alternate \<and>
   country_score example_ext congo_db ''congo'' ''CG'' ''Republic of the Congo''
     (map Some (country_alternate_names congo_db)) = 80"
  by code_simp

section \<open>The statement of the search\<close>

text \<open>
  The columns of the two branches have a common type but for the last, which is
  \<^verbatim>\<open>json\<close> in the city branch and \<^verbatim>\<open>jsonb\<close> in the country branch. PostgreSQL
  rejects the statement, whatever the tables hold and whatever the parameters are, and the
  handler answers every request that passes its validation with status 500.
\<close>

lemma union_columns:
  "map (\<lambda>(a, b). union_type a b) (zip city_columns country_columns)
   = [Some Text, Some Int4, Some Varchar, Some Varchar, Some Bpchar, Some Varchar, Some Varchar,
      Some Numeric, Some Numeric, Some Text, Some Text, Some Jsonb, Some Float8, None]"
  by (simp add: city_columns_def country_columns_def union_type_def implicit_cast_def
      preferred_def)

lemma search_results_rejected: "search_results ext d q = None"
  by (simp add: search_results_def UNION_ALL_def city_columns_def country_columns_def
      union_type_def implicit_cast_def preferred_def)

lemma search_query_rejected: "search_query ext d q cp tp lp = None"
  by (simp add: search_query_def search_results_rejected)


lemma search_not_ok: "fst (search ext req d) \<noteq> Ok_200 body"
  by (simp add: search_def search_query_rejected)

section \<open>Validation\<close>

text \<open>
  C3. Claim: for every query string of length less than 2, search returns a validation
  error without any store access, and for every reverse call with lat or lon missing,
  reverse returns a validation error without any store access; the core does not crash.
  The handlers are total functions; on these requests they answer with status 400 and
  hand back the database as it was, its count of statements included. A parameter is
  missing when it is absent or the empty string; the query may be absent too.
\<close>

theorem validation_before_store_access:
  "((case req_q req of None \<Rightarrow> True | Some s \<Rightarrow> length s < 2) \<longrightarrow>
      search ext req d = (Bad_request_400 Q_required_min_2_characters, d)) \<and>
   (\<not> truthy (req_lat r) \<or> \<not> truthy (req_lon r) \<longrightarrow>
      reverse pg r d = (Bad_request_400 Lat_and_lon_required, d))"
  by (auto simp: search_def reverse_def truthy_def COALESCE_def split: option.splits)

text \<open>
  On the example: a query of one character, and a reverse lookup without a latitude.
\<close>

theorem validation_before_store_access_witness:
  "search example_ext (example_request ''p'') example_db
     = (Bad_request_400 Q_required_min_2_characters, example_db) \<and>
   reverse example_postgis \<lparr> req_lat = None, req_lon = Some ''2.35'', req_radius = None \<rparr> example_db
     = (Bad_request_400 Lat_and_lon_required, example_db)"
  using validation_before_store_access [where req = "example_request ''p''" and ext = example_ext
      and d = example_db and pg = example_postgis
      and r = "\<lparr> req_lat = None, req_lon = Some ''2.35'', req_radius = None \<rparr>"]
  by (simp add: example_request_def truthy_def)

section \<open>The country filter\<close>




section \<open>The translations of a city result\<close>



section \<open>Where the rows of a result come from\<close>

lemma city_join_origin:
  "(c, co, alt) \<in> set (city_join ext d) \<Longrightarrow>
   c \<in> set (cities d) \<and> co \<in> set (countries d) \<and> c_country_code c = Some (co_country_code co)"
  by (auto simp: city_join_def)

lemma GROUP_BY_key: "(k, rows) \<in> set (GROUP_BY key xs) \<Longrightarrow> \<exists>x\<in>set xs. key x = k"
  by (auto simp: GROUP_BY_def)

lemma city_rows_origin:
  assumes "r \<in> set (city_rows ext d q)"
  shows "\<exists>c\<in>set (cities d). \<exists>co\<in>set (countries d).
           c_country_code c = Some (co_country_code co) \<and> r_geonameid r = Some (c_geonameid c)"
proof -
  from assms obtain k rows where
    g: "(k, rows) \<in> set (GROUP_BY city_key (filter (city_where ext q) (city_join ext d)))"
    and r: "r = city_select ext d q (k, rows)"
    by (auto simp: city_rows_def)
  from GROUP_BY_key [OF g] obtain c co alt where
    j: "(c, co, alt) \<in> set (city_join ext d)" and k: "city_key (c, co, alt) = k"
    by auto
  from k r have "r_geonameid r = Some (c_geonameid c)"
    by (auto simp: city_key_def city_select_def)
  with city_join_origin [OF j] show ?thesis by blast
qed

lemma country_rows_geonameid: "r \<in> set (country_rows ext d q) \<Longrightarrow> r_geonameid r = None"
  by (auto simp: country_rows_def country_select_def)

lemma reverse_query_origin:
  assumes "r \<in> set (reverse_query pg d la lo rad)"
  shows "\<exists>c\<in>set (cities d). \<exists>co\<in>set (countries d).
           c_country_code c = Some (co_country_code co) \<and> v_geonameid r = c_geonameid c \<and>
           c_latitude c = Some (v_latitude r) \<and> c_longitude c = Some (v_longitude r) \<and>
           v_distance_km r
             = float8_div pg (ST_Distance pg (lo, la) (v_longitude r, v_latitude r)) 1000 \<and>
           ST_Distance pg (lo, la) (v_longitude r, v_latitude r) \<le> rad * 1000"
proof -
  from assms have "r \<in> set (sort_key v_distance_km
         (concat (map (\<lambda>(c, co).
            case (c_latitude c, c_longitude c) of
              (Some latitude, Some longitude) \<Rightarrow>
                if ST_DWithin pg (lo, la) (longitude, latitude) (rad * 1000)
                then [\<lparr> v_type = ''city'', v_geonameid = c_geonameid c, v_name = c_name c,
                        v_country_code = c_country_code c, v_country_name = co_name co,
                        v_admin_region = c_admin1_name c,
                        v_latitude = latitude, v_longitude = longitude,
                        v_distance_km =
                          float8_div pg (ST_Distance pg (lo, la) (longitude, latitude)) 1000 \<rparr>]
                else []
            | _ \<Rightarrow> [])
          [(c, co). c \<leftarrow> cities d, co \<leftarrow> countries d,
                    c_country_code c = Some (co_country_code co)])))"
    unfolding reverse_query_def by (rule in_set_takeD)
  then show ?thesis
    by (auto simp: ST_DWithin_def split: option.splits if_splits)
qed

lemma distinct_map_eq:
  "distinct (map f xs) \<Longrightarrow> x \<in> set xs \<Longrightarrow> y \<in> set xs \<Longrightarrow> f x = f y \<Longrightarrow> x = y"
  by (meson distinct_map inj_onD)

text \<open>
  C10. Claim: a stored place whose country code matches no stored country appears in no
  search result and no reverse-lookup result, though its insertion was not blocked: both
  statements join \<^verbatim>\<open>countries\<close>. \<^verbatim>\<open>geonameid\<close> is the primary key of
  \<^verbatim>\<open>cities\<close>. Neither branch of the search statement selects a row with the id of
  such a place, and the handler of the search answers no request with results; no row the
  reverse statement returns carries the id of such a place.
\<close>

theorem place_without_country_in_no_result:
  assumes "distinct (map c_geonameid (cities d))"
    and "c \<in> set (cities d)"
    and "\<not> list_ex (\<lambda>co. c_country_code c = Some (co_country_code co)) (countries d)"
  shows "(\<forall>r\<in>set (city_rows ext d q) \<union> set (country_rows ext d q).
            r_geonameid r \<noteq> Some (c_geonameid c)) \<and>
         (\<forall>body. fst (search ext req d) \<noteq> Ok_200 body) \<and>
         (\<forall>r\<in>set (reverse_query pg d la lo rad). v_geonameid r \<noteq> c_geonameid c)"
proof (intro conjI ballI notI allI)
  fix r assume r: "r \<in> set (city_rows ext d q) \<union> set (country_rows ext d q)"
    and g: "r_geonameid r = Some (c_geonameid c)"
  with country_rows_geonameid have "r \<in> set (city_rows ext d q)" by fastforce
  from city_rows_origin [OF this] g obtain c' co where
    c': "c' \<in> set (cities d)" "co \<in> set (countries d)"
        "c_country_code c' = Some (co_country_code co)" "c_geonameid c' = c_geonameid c"
    by auto
  from distinct_map_eq [OF assms(1) c'(1) assms(2) c'(4)] have "c' = c" .
  with c' assms(3) show False by (auto simp: list_ex_iff)
next
  fix body assume "fst (search ext req d) = Ok_200 body"
  with search_not_ok show False by blast
next
  fix r assume r: "r \<in> set (reverse_query pg d la lo rad)" and g: "v_geonameid r = c_geonameid c"
  from reverse_query_origin [OF r] g obtain c' co where
    c': "c' \<in> set (cities d)" "co \<in> set (countries d)"
        "c_country_code c' = Some (co_country_code co)" "c_geonameid c' = c_geonameid c"
    by auto
  from distinct_map_eq [OF assms(1) c'(1) assms(2) c'(4)] have "c' = c" .
  with c' assms(3) show False by (auto simp: list_ex_iff)
qed

text \<open>
  On the example: Pristina is stored and no stored country has its code XK. The branches
  of the search for \<^verbatim>\<open>ri\<close>, which its name contains, select Paris and Austria. The
  reverse lookup within 2000 km of the point (48.85, 2.35), from which Pristina is 1611 km
  away, returns the three cities of France and Vienna.
\<close>

theorem place_without_country_in_no_result_witness:
  "distinct (map c_geonameid (cities example_db)) \<and>
   pristina \<in> set (cities example_db) \<and>
   \<not> list_ex (\<lambda>co. c_country_code pristina = Some (co_country_code co)) (countries example_db) \<and>
   ILIKE example_ext (c_name pristina) (like_pattern ''ri'') \<and>
   map r_name (city_rows example_ext example_db ''ri'' @ country_rows example_ext example_db ''ri'')
     = [''Paris'', ''Austria''] \<and>
   list_all (\<lambda>r. r_geonameid r \<noteq> Some 786714)
     (city_rows example_ext example_db ''ri'' @ country_rows example_ext example_db ''ri'') \<and>
   fst (search example_ext (example_request ''ri'') example_db) = Internal_error_500 \<and>
   ST_DWithin example_postgis (235 / 100, 4885 / 100) (2116688 / 100000, 4267272 / 100000)
     (2000 * 1000) \<and>
   map v_name (reverse_query example_postgis example_db (4885 / 100) (235 / 100) 2000)
     = [''Paris'', ''Boulogne-Billancourt'', ''Versailles'', ''Vienna''] \<and>
   list_all (\<lambda>r. v_geonameid r \<noteq> 786714)
     (reverse_query example_postgis example_db (4885 / 100) (235 / 100) 2000)"
proof -
  have a: "distinct (map c_geonameid (cities example_db))" by code_simp
  have b: "pristina \<in> set (cities example_db)" by (simp add: example_db_def)
  have c: "\<not> list_ex (\<lambda>co. c_country_code pristina = Some (co_country_code co)) (countries example_db)"
    by code_simp
  have g: "c_geonameid pristina = 786714" by (simp add: pristina_def example_city_def)
  have i: "ILIKE example_ext (c_name pristina) (like_pattern ''ri'')" by code_simp
  have r: "map r_name (city_rows example_ext example_db ''ri'' @ country_rows example_ext example_db ''ri'')
     = [''Paris'', ''Austria'']" by code_simp
  have e: "fst (search example_ext (example_request ''ri'') example_db) = Internal_error_500"
    by code_simp
  have w: "ST_DWithin example_postgis (235 / 100, 4885 / 100) (2116688 / 100000, 4267272 / 100000)
     (2000 * 1000)" by code_simp
  have v: "map v_name (reverse_query example_postgis example_db (4885 / 100) (235 / 100) 2000)
     = [''Paris'', ''Boulogne-Billancourt'', ''Versailles'', ''Vienna'']" by code_simp
  from place_without_country_in_no_result [OF a b c, where ext = example_ext and q = "''ri''"
      and req = "example_request ''ri''" and pg = example_postgis
      and la = "4885 / 100" and lo = "235 / 100" and rad = 2000] a b c i r e w v
  show ?thesis by (simp add: list_all_iff g)
qed

section \<open>Rounding to two decimals\<close>

lemma round_half: "\<bar>of_int \<lfloor>y + 1 / 2\<rfloor> - y\<bar> \<le> 1 / 2" for y :: rat
proof -
  have "of_int \<lfloor>y + 1 / 2\<rfloor> \<le> y + 1 / 2" by (rule of_int_floor_le)
  moreover have "y + 1 / 2 < of_int (\<lfloor>y + 1 / 2\<rfloor> + 1)"
    using floor_correct [of "y + 1 / 2"] by blast
  then have "y + 1 / 2 < of_int \<lfloor>y + 1 / 2\<rfloor> + 1" by (simp only: of_int_add of_int_1)
  ultimately show ?thesis by linarith
qed

lemma round_half_100: "\<bar>of_int \<lfloor>y * 100 + 1 / 2\<rfloor> / 100 - y\<bar> \<le> 1 / 200" for y :: rat
proof -
  have "of_int \<lfloor>y * 100 + 1 / 2\<rfloor> / 100 - y = (of_int \<lfloor>y * 100 + 1 / 2\<rfloor> - y * 100) / 100"
    by (simp add: diff_divide_distrib)
  then have "\<bar>of_int \<lfloor>y * 100 + 1 / 2\<rfloor> / 100 - y\<bar> = \<bar>(of_int \<lfloor>y * 100 + 1 / 2\<rfloor> - y * 100) / 100\<bar>"
    by (rule arg_cong)
  also have "\<dots> = \<bar>of_int \<lfloor>y * 100 + 1 / 2\<rfloor> - y * 100\<bar> / 100"
    by (simp only: abs_divide abs_numeral)
  also have "\<dots> \<le> (1 / 2) / 100"
    using round_half [of "y * 100"] by (intro divide_right_mono) simp_all
  finally show ?thesis by simp
qed

lemma toFixed2_close: "\<bar>toFixed2 x - x\<bar> \<le> 1 / 200"
proof (cases "10 ^ 21 \<le> \<bar>x\<bar>")
  case True
  then show ?thesis by (simp add: toFixed2_def)
next
  case False
  show ?thesis
  proof (cases "x < 0")
    case True
    have "\<bar>toFixed2 x - x\<bar> = \<bar>of_int \<lfloor>(- x) * 100 + 1 / 2\<rfloor> / 100 - (- x)\<bar>"
      using False True by (simp add: toFixed2_def)
    then show ?thesis using round_half_100 [of "- x"] by simp
  next
    case nonneg: False
    then show ?thesis using False round_half_100 [of x] by (simp add: toFixed2_def)
  qed
qed

lemma toFixed2_two_decimals:
  "\<bar>x\<bar> < 10 ^ 21 \<Longrightarrow> \<exists>n::int. toFixed2 x = of_int n / 100"
proof -
  assume "\<bar>x\<bar> < 10 ^ 21"
  then have "toFixed2 x = of_int (if x < 0 then - \<lfloor>- x * 100 + 1 / 2\<rfloor> else \<lfloor>x * 100 + 1 / 2\<rfloor>) / 100"
    by (simp add: toFixed2_def)
  then show ?thesis by blast
qed

lemma toFixed2_small_le: "\<bar>x\<bar> < 10 ^ 21 \<Longrightarrow> \<bar>toFixed2 x\<bar> \<le> 10 ^ 21"
proof -
  assume a: "\<bar>x\<bar> < 10 ^ 21"
  have f: "0 \<le> y \<Longrightarrow> y < 10 ^ 21 \<Longrightarrow> of_int \<lfloor>y * 100 + 1 / 2\<rfloor> / 100 \<le> (10 ^ 21 :: rat) \<and> (0::rat) \<le> of_int \<lfloor>y * 100 + 1 / 2\<rfloor> / 100" for y :: rat
  proof -
    assume y: "0 \<le> y" "y < 10 ^ 21"
    then have "y * 100 + 1 / 2 < of_int (10 ^ 23 + 1)" by simp
    then have "\<lfloor>y * 100 + 1 / 2\<rfloor> < 10 ^ 23 + 1" by (simp only: floor_less_iff)
    then have "\<lfloor>y * 100 + 1 / 2\<rfloor> \<le> 10 ^ 23" by simp
    then have "(of_int \<lfloor>y * 100 + 1 / 2\<rfloor> :: rat) \<le> of_int (10 ^ 23)" by (simp only: of_int_le_iff)
    then have 1: "of_int \<lfloor>y * 100 + 1 / 2\<rfloor> / 100 \<le> (10 ^ 21 :: rat)" by simp
    from y have "0 \<le> \<lfloor>y * 100 + 1 / 2\<rfloor>" by simp
    then have "(0::rat) \<le> of_int \<lfloor>y * 100 + 1 / 2\<rfloor> / 100" by simp
    with 1 show ?thesis by simp
  qed
  show ?thesis
  proof (cases "x < 0")
    case True
    with a f [of "- x"] show ?thesis by (simp add: toFixed2_def)
  next
    case False
    with a f [of x] show ?thesis by (simp add: toFixed2_def)
  qed
qed

lemma toFixed2_sign: "\<bar>x\<bar> < 10 ^ 21 \<Longrightarrow> (x < 0 \<longrightarrow> toFixed2 x \<le> 0) \<and> (0 \<le> x \<longrightarrow> 0 \<le> toFixed2 x)"
  by (auto simp: toFixed2_def)

lemma toFixed2_mono: "x \<le> y \<Longrightarrow> toFixed2 x \<le> toFixed2 y"
proof -
  assume xy: "x \<le> y"
  consider (big) "10 ^ 21 \<le> \<bar>x\<bar>" "10 ^ 21 \<le> \<bar>y\<bar>"
    | (xbig) "10 ^ 21 \<le> \<bar>x\<bar>" "\<bar>y\<bar> < 10 ^ 21"
    | (ybig) "\<bar>x\<bar> < 10 ^ 21" "10 ^ 21 \<le> \<bar>y\<bar>"
    | (small) "\<bar>x\<bar> < 10 ^ 21" "\<bar>y\<bar> < 10 ^ 21"
    by linarith
  then show ?thesis
  proof cases
    case big
    with xy show ?thesis by (simp add: toFixed2_def)
  next
    case xbig
    with xy have "x \<le> - (10 ^ 21)" by linarith
    moreover from xbig have "toFixed2 x = x" by (simp add: toFixed2_def)
    moreover from toFixed2_small_le [OF xbig(2)] have "- (10 ^ 21) \<le> toFixed2 y" by linarith
    ultimately show ?thesis by linarith
  next
    case ybig
    with xy have "10 ^ 21 \<le> y" by linarith
    moreover from ybig have "toFixed2 y = y" by (simp add: toFixed2_def)
    moreover from toFixed2_small_le [OF ybig(1)] have "toFixed2 x \<le> 10 ^ 21" by linarith
    ultimately show ?thesis by linarith
  next
    case small
    show ?thesis
    proof (cases "x < 0")
      case xneg: True
      show ?thesis
      proof (cases "y < 0")
        case True
        from xy have "\<lfloor>- y * 100 + 1 / 2\<rfloor> \<le> \<lfloor>- x * 100 + 1 / 2\<rfloor>" by (intro floor_mono) simp
        then have "(of_int \<lfloor>- y * 100 + 1 / 2\<rfloor> :: rat) \<le> of_int \<lfloor>- x * 100 + 1 / 2\<rfloor>" by (simp only: of_int_le_iff)
        with small xneg True show ?thesis by (simp add: toFixed2_def)
      next
        case False
        with toFixed2_sign [OF small(1)] toFixed2_sign [OF small(2)] xneg show ?thesis by linarith
      qed
    next
      case xpos: False
      with xy have ypos: "\<not> y < 0" by linarith
      from xy have "\<lfloor>x * 100 + 1 / 2\<rfloor> \<le> \<lfloor>y * 100 + 1 / 2\<rfloor>" by (intro floor_mono) simp
      then have "(of_int \<lfloor>x * 100 + 1 / 2\<rfloor> :: rat) \<le> of_int \<lfloor>y * 100 + 1 / 2\<rfloor>" by (simp only: of_int_le_iff)
      with small xpos ypos show ?thesis by (simp add: toFixed2_def)
    qed
  qed
qed

lemma sorted_map_mono: "sorted (map f xs) \<Longrightarrow> (\<And>x y. x \<le> y \<Longrightarrow> g x \<le> g y) \<Longrightarrow> sorted (map (\<lambda>x. g (f x)) xs)"
  by (induction xs) auto

section \<open>The reverse lookup\<close>

lemma reverse_query_length: "length (reverse_query pg d la lo rad) \<le> 5"
  by (simp add: reverse_query_def)

lemma reverse_query_sorted: "sorted (map v_distance_km (reverse_query pg d la lo rad))"
  unfolding reverse_query_def
  by (simp only: take_map [symmetric]) (intro sorted_wrt_take sorted_sort_key)

lemma format_reverse_distance: "rr_distance_km (format_reverse row) = toFixed2 (v_distance_km row)"
  by (simp add: format_reverse_def)

text \<open>
  C2. Claim: for every lat, lon and radius (50 km when omitted), reverse returns at most 5
  places, each at a great-circle distance from the query point of at most the radius, in
  ascending order of distance, and each result's \<^verbatim>\<open>distance_km\<close> is the distance in
  kilometres rounded to 2 decimals. This holds of the distance the statement measures,
  PostGIS's \<^verbatim>\<open>ST_Distance\<close> of the two geography points, in metres: whenever the
  handler answers with status 200, the parameters were read as numbers \<open>la\<close>, \<open>lo\<close> and
  \<open>r\<close>, and the results are the formatted rows of at most five cities, each at most
  \<open>1000 r\<close> metres away, sorted by the kilometres before and after rounding; the rounded
  number is within half a hundredth of the quotient of the metres by 1000 and is a whole
  number of hundredths.
\<close>

theorem reverse_contract:
  assumes "reverse pg req d = (Ok_200 body, d')"
  shows "\<exists>la lo r rows.
           coordinate_in pg (COALESCE (req_lat req) []) = Some la \<and>
           coordinate_in pg (COALESCE (req_lon req) []) = Some lo \<and>
           radius_in pg (case req_radius req of None \<Rightarrow> ''50'' | Some s \<Rightarrow> s) = Some r \<and>
           rb_results body = map format_reverse rows \<and>
           length rows \<le> 5 \<and>
           sorted (map v_distance_km rows) \<and>
           sorted (map rr_distance_km (rb_results body)) \<and>
           (\<forall>row\<in>set rows.
              v_distance_km row
                = float8_div pg (ST_Distance pg (lo, la) (v_longitude row, v_latitude row)) 1000 \<and>
              ST_Distance pg (lo, la) (v_longitude row, v_latitude row) \<le> r * 1000 \<and>
              (\<exists>c\<in>set (cities d). v_geonameid row = c_geonameid c \<and>
                 c_latitude c = Some (v_latitude row) \<and> c_longitude c = Some (v_longitude row)) \<and>
              \<bar>rr_distance_km (format_reverse row) - v_distance_km row\<bar> \<le> 1 / 200 \<and>
              (\<bar>v_distance_km row\<bar> < 10 ^ 21 \<longrightarrow>
                 (\<exists>n::int. rr_distance_km (format_reverse row) = of_int n / 100)))"
proof -
  from assms obtain la lo r where
    p: "coordinate_in pg (COALESCE (req_lat req) []) = Some la"
       "coordinate_in pg (COALESCE (req_lon req) []) = Some lo"
       "radius_in pg (case req_radius req of None \<Rightarrow> ''50'' | Some s \<Rightarrow> s) = Some r"
    and b: "rb_results body = map format_reverse (reverse_query pg d la lo r)"
    by (auto simp: reverse_def Let_def split: if_splits option.splits)
  let ?rows = "reverse_query pg d la lo r"
  have s: "sorted (map rr_distance_km (rb_results body))"
    using sorted_map_mono [OF reverse_query_sorted [of pg d la lo r], of toFixed2] toFixed2_mono
    by (simp add: b format_reverse_distance comp_def)
  have e: "\<forall>row\<in>set ?rows.
              v_distance_km row
                = float8_div pg (ST_Distance pg (lo, la) (v_longitude row, v_latitude row)) 1000 \<and>
              ST_Distance pg (lo, la) (v_longitude row, v_latitude row) \<le> r * 1000 \<and>
              (\<exists>c\<in>set (cities d). v_geonameid row = c_geonameid c \<and>
                 c_latitude c = Some (v_latitude row) \<and> c_longitude c = Some (v_longitude row)) \<and>
              \<bar>rr_distance_km (format_reverse row) - v_distance_km row\<bar> \<le> 1 / 200 \<and>
              (\<bar>v_distance_km row\<bar> < 10 ^ 21 \<longrightarrow>
                 (\<exists>n::int. rr_distance_km (format_reverse row) = of_int n / 100))"
  proof
    fix row assume "row \<in> set ?rows"
    from reverse_query_origin [OF this] obtain c where
      c: "c \<in> set (cities d)" "v_geonameid row = c_geonameid c"
         "c_latitude c = Some (v_latitude row)" "c_longitude c = Some (v_longitude row)"
         "v_distance_km row
            = float8_div pg (ST_Distance pg (lo, la) (v_longitude row, v_latitude row)) 1000"
         "ST_Distance pg (lo, la) (v_longitude row, v_latitude row) \<le> r * 1000"
      by blast
    with toFixed2_close [of "v_distance_km row"] toFixed2_two_decimals [of "v_distance_km row"]
    show "v_distance_km row
                = float8_div pg (ST_Distance pg (lo, la) (v_longitude row, v_latitude row)) 1000 \<and>
              ST_Distance pg (lo, la) (v_longitude row, v_latitude row) \<le> r * 1000 \<and>
              (\<exists>c\<in>set (cities d). v_geonameid row = c_geonameid c \<and>
                 c_latitude c = Some (v_latitude row) \<and> c_longitude c = Some (v_longitude row)) \<and>
              \<bar>rr_distance_km (format_reverse row) - v_distance_km row\<bar> \<le> 1 / 200 \<and>
              (\<bar>v_distance_km row\<bar> < 10 ^ 21 \<longrightarrow>
                 (\<exists>n::int. rr_distance_km (format_reverse row) = of_int n / 100))"
      by (auto simp: format_reverse_distance)
  qed
  from p b s e reverse_query_length [of pg d la lo r] reverse_query_sorted [of pg d la lo r]
  show ?thesis by blast
qed

text \<open>
  On the example: the three cities within 50 km of the point (48.85, 2.35), nearest first,
  with their rounded distances.
\<close>

theorem reverse_contract_witness:
  "reverse example_postgis example_reverse_request example_db
     = (Ok_200 \<lparr> rb_coordinates = (Some (4885 / 100), Some (235 / 100)),
                  rb_results = map format_reverse (reverse_query example_postgis example_db (4885 / 100) (235 / 100) 50),
                  rb_count = 3 \<rparr>,
        example_db\<lparr>queries := 1\<rparr>) \<and>
   map rr_name (map format_reverse (reverse_query example_postgis example_db (4885 / 100) (235 / 100) 50))
     = [''Paris'', ''Boulogne-Billancourt'', ''Versailles''] \<and>
   map rr_distance_km (map format_reverse (reverse_query example_postgis example_db (4885 / 100) (235 / 100) 50))
     = [39 / 100, 814 / 100, 1666 / 100] \<and>
   (\<exists>la lo r rows.
      coordinate_in example_postgis ''48.85'' = Some la \<and>
      coordinate_in example_postgis ''2.35'' = Some lo \<and>
      radius_in example_postgis ''50'' = Some r \<and>
      map format_reverse (reverse_query example_postgis example_db (4885 / 100) (235 / 100) 50) = map format_reverse rows \<and>
      length rows \<le> 5 \<and>
      sorted (map v_distance_km rows) \<and>
      list_all (\<lambda>row. ST_Distance example_postgis (lo, la) (v_longitude row, v_latitude row)
                        \<le> r * 1000) rows)"
proof -
  have h: "reverse example_postgis example_reverse_request example_db
     = (Ok_200 \<lparr> rb_coordinates = (Some (4885 / 100), Some (235 / 100)),
                  rb_results = map format_reverse (reverse_query example_postgis example_db (4885 / 100) (235 / 100) 50),
                  rb_count = 3 \<rparr>,
        example_db\<lparr>queries := 1\<rparr>)"
    by code_simp
  have n: "map rr_name (map format_reverse (reverse_query example_postgis example_db (4885 / 100) (235 / 100) 50))
     = [''Paris'', ''Boulogne-Billancourt'', ''Versailles'']"
    by code_simp
  have k: "map rr_distance_km (map format_reverse (reverse_query example_postgis example_db (4885 / 100) (235 / 100) 50))
     = [39 / 100, 814 / 100, 1666 / 100]"
    by code_simp
  from reverse_contract [OF h] obtain la lo r rows where
      "coordinate_in example_postgis (COALESCE (req_lat example_reverse_request) []) = Some la"
      "coordinate_in example_postgis (COALESCE (req_lon example_reverse_request) []) = Some lo"
      "radius_in example_postgis (case req_radius example_reverse_request of None \<Rightarrow> ''50'' | Some s \<Rightarrow> s) = Some r"
      "map format_reverse (reverse_query example_postgis example_db (4885 / 100) (235 / 100) 50) = map format_reverse rows"
      "length rows \<le> 5" "sorted (map v_distance_km rows)"
      "\<forall>row\<in>set rows. ST_Distance example_postgis (lo, la) (v_longitude row, v_latitude row) \<le> r * 1000"
    by auto
  then have "\<exists>la lo r rows.
      coordinate_in example_postgis ''48.85'' = Some la \<and>
      coordinate_in example_postgis ''2.35'' = Some lo \<and>
      radius_in example_postgis ''50'' = Some r \<and>
      map format_reverse (reverse_query example_postgis example_db (4885 / 100) (235 / 100) 50) = map format_reverse rows \<and>
      length rows \<le> 5 \<and>
      sorted (map v_distance_km rows) \<and>
      list_all (\<lambda>row. ST_Distance example_postgis (lo, la) (v_longitude row, v_latitude row)
                        \<le> r * 1000) rows"
    by (auto simp: example_reverse_request_def COALESCE_def list_all_iff)
  with h n k show ?thesis by blast
qed

section \<open>The distance of the reverse lookup and the great circle\<close>

text \<open>A lower bound of \<open>\<pi>\<close>, from the series of the cosine at 1.0466.\<close>

lemma sum_lessThan_8:
  "(\<Sum>m<8. f m) = f 0 + f 1 + f 2 + f 3 + f 4 + f 5 + f 6 + f (7::nat)" for f :: "nat \<Rightarrow> real"
  by (simp add: numeral_eq_Suc)

lemma cos_coeffs:
  "cos_coeff 0 = 1" "cos_coeff 1 = 0" "cos_coeff 2 = - 1 / 2" "cos_coeff 3 = 0"
  "cos_coeff 4 = 1 / 24" "cos_coeff 5 = 0" "cos_coeff 6 = - 1 / 720" "cos_coeff 7 = 0"
  by (simp_all add: cos_coeff_def fact_numeral)

lemma cos_lower: "1 / 2 < cos (10466 / 10000 :: real)"
proof -
  let ?x = "10466 / 10000 :: real"
  from Maclaurin_cos_expansion2 [of ?x 8] obtain t where
    t: "cos ?x = (\<Sum>m<8. cos_coeff m * ?x ^ m) + cos (t + 1 / 2 * real 8 * pi) / fact 8 * ?x ^ 8"
    by auto
  have "- 1 \<le> cos (t + 1 / 2 * real 8 * pi)" by (rule cos_ge_minus_one)
  then have "- 1 / fact 8 * ?x ^ 8 \<le> cos (t + 1 / 2 * real 8 * pi) / fact 8 * ?x ^ 8"
    by (intro mult_right_mono divide_right_mono) simp_all
  moreover have "(\<Sum>m<8. cos_coeff m * ?x ^ m) = 1 - ?x ^ 2 / 2 + ?x ^ 4 / 24 - ?x ^ 6 / 720"
    unfolding sum_lessThan_8 cos_coeffs by simp
  moreover have "1 / 2 < 1 - ?x ^ 2 / 2 + ?x ^ 4 / 24 - ?x ^ 6 / 720 + (- 1 / fact 8 * ?x ^ 8)"
    by (simp add: fact_numeral power_divide)
  ultimately show ?thesis using t by linarith
qed

lemma pi_lower: "31398 / 10000 < pi"
proof -
  have "cos (pi / 3) < cos (10466 / 10000 :: real)" using cos_lower by (simp add: cos_60)
  moreover have "0 \<le> pi / 3" "pi / 3 \<le> pi" using pi_ge_zero by simp_all
  moreover have "(10466 / 10000 :: real) \<le> pi" using pi_ge_two by simp
  ultimately have "(10466 / 10000 :: real) < pi / 3"
    using cos_mono_less_eq [of "pi / 3" "10466 / 10000"] by simp
  then show ?thesis by simp
qed

text \<open>
  On the meridian of the query point the haversine formula gives the arc of the
  difference in latitude.
\<close>

lemma great_circle_on_meridian:
  assumes "0 \<le> lat" and "lat \<le> 180"
  shows "spec_great_circle_km R (0, 0) (lat, 0) = R * lat * pi / 180"
proof -
  have p: "0 \<le> lat * pi / 360" using assms pi_ge_zero by simp
  have "lat * pi / 360 \<le> 180 * pi / 360" using assms pi_ge_zero
    by (intro divide_right_mono mult_right_mono) simp_all
  then have q: "lat * pi / 360 \<le> pi / 2" by simp
  from p q have "0 \<le> sin (lat * pi / 360)"
    using sin_ge_zero [of "lat * pi / 360"] pi_ge_zero by linarith
  then have "sqrt ((sin (lat * pi / 360))\<^sup>2) = sin (lat * pi / 360)" by simp
  moreover have "arcsin (sin (lat * pi / 360)) = lat * pi / 360"
    using p q pi_ge_zero by (intro arcsin_sin) linarith+
  ultimately show ?thesis by (simp add: spec_great_circle_km_def)
qed

lemma meridian_beyond_50:
  "50 < spec_great_circle_km polar_radius_km (0, 0) (4515 / 10000, 0) \<and>
   50 < spec_great_circle_km mean_radius_km (0, 0) (4515 / 10000, 0)"
proof -
  have "50 < polar_radius_km * (4515 / 10000) * (31398 / 10000) / 180"
    by (simp add: polar_radius_km_def)
  also have "\<dots> < polar_radius_km * (4515 / 10000) * pi / 180"
    using pi_lower by (simp add: polar_radius_km_def)
  finally have a: "50 < polar_radius_km * (4515 / 10000) * pi / 180" .
  have "50 < mean_radius_km * (4515 / 10000) * (31398 / 10000) / 180"
    by (simp add: mean_radius_km_def)
  also have "\<dots> < mean_radius_km * (4515 / 10000) * pi / 180"
    using pi_lower by (simp add: mean_radius_km_def)
  finally have b: "50 < mean_radius_km * (4515 / 10000) * pi / 180" .
  from a b show ?thesis by (simp add: great_circle_on_meridian)
qed

text \<open>
  C2 as stated fails, for the distance is not the great-circle distance. The place 0.4515
  degrees north of the point (0, 0) is 49924.30 metres from it on the spheroid, and the
  handler returns it within the default radius of 50 km with the distance 49.92. Its
  great-circle distance from the point is more than 50 km, on the sphere of the Earth's
  mean radius (50.20 km) and on the sphere of its polar radius.
\<close>

theorem reverse_distance_not_great_circle:
  "(case fst (reverse example_postgis meridian_request meridian_db) of
      Ok_200 body \<Rightarrow> map (\<lambda>r. (rr_name r, rr_coordinates r, rr_distance_km r)) (rb_results body)
    | _ \<Rightarrow> [])
     = [(''Meridian Rock'', (4515 / 10000, 0), 4992 / 100)] \<and>
   50 < spec_great_circle_km polar_radius_km (0, 0) (4515 / 10000, 0) \<and>
   50 < spec_great_circle_km mean_radius_km (0, 0) (4515 / 10000, 0)"
proof -
  have "(case fst (reverse example_postgis meridian_request meridian_db) of
      Ok_200 body \<Rightarrow> map (\<lambda>r. (rr_name r, rr_coordinates r, rr_distance_km r)) (rb_results body)
    | _ \<Rightarrow> [])
     = [(''Meridian Rock'', (4515 / 10000, 0), 4992 / 100)]"
    by code_simp
  with meridian_beyond_50 show ?thesis by simp
qed

section \<open>The filter of the alternate-names lines\<close>

lemma processLine_dropped:
  "\<not> spec_row_kept ext langs line \<Longrightarrow>
   processLine ext langs line st = st\<lparr>ld_processed := ld_processed st + 1\<rparr>"
  by (auto simp: spec_row_kept_def processLine_def Let_def split: option.splits)

lemma process_queued_dropped:
  assumes "\<not> spec_row_kept ext langs line" and "length (ld_batch st) < BATCH_SIZE"
  shows "process_queued ext langs line st = st\<lparr>ld_processed := ld_processed st + 1\<rparr>"
  using processLine_dropped [OF assms(1), of st] assms(2)
  by (simp add: process_queued_def Let_def)

text \<open>
  C6. Claim: during alternate-name ingestion every input row is dropped, with no store
  access, unless it has at least 8 tab-separated fields, a non-empty language code of at
  most 7 characters and a name of at most 400 characters; under a language allow-list a row
  whose language is outside the list is dropped unless the list contains \<^verbatim>\<open>all\<close>.
  A line that fails the filter only adds one to the count of lines read: the batch and the
  database stay as they are, and the turn of the loop of \<^verbatim>\<open>processQueue\<close> that takes
  the line applies no batch for it.
\<close>

theorem dropped_line_no_store_access:
  assumes "\<not> spec_row_kept ext langs line"
  shows "processLine ext langs line st = st\<lparr>ld_processed := ld_processed st + 1\<rparr> \<and>
         (length (ld_batch st) < BATCH_SIZE \<longrightarrow>
            process_queued ext langs line st = st\<lparr>ld_processed := ld_processed st + 1\<rparr>)"
  using processLine_dropped [OF assms, of st] process_queued_dropped [OF assms, of st]
  by simp

text \<open>
  On the example: under the allow-list of German and French, the Italian name of Vienna is
  dropped; so is the line whose language code has eight characters, under no allow-list.
\<close>

theorem dropped_line_no_store_access_witness:
  "\<not> spec_row_kept example_ext (Some [''de'', ''fr'']) vienna_line \<and>
   processLine example_ext (Some [''de'', ''fr'']) vienna_line (empty_load example_db)
     = (empty_load example_db)\<lparr>ld_processed := 1\<rparr> \<and>
   process_queued example_ext (Some [''de'', ''fr'']) vienna_line (empty_load example_db)
     = (empty_load example_db)\<lparr>ld_processed := 1\<rparr> \<and>
   \<not> spec_row_kept example_ext None long_language_line \<and>
   processLine example_ext None long_language_line (empty_load example_db)
     = (empty_load example_db)\<lparr>ld_processed := 1\<rparr>"
proof -
  have h: "\<not> spec_row_kept example_ext (Some [''de'', ''fr'']) vienna_line" by code_simp
  have k: "\<not> spec_row_kept example_ext None long_language_line" by code_simp
  have b: "length (ld_batch (empty_load example_db)) < BATCH_SIZE"
    by (simp add: empty_load_def BATCH_SIZE_def)
  from dropped_line_no_store_access [OF h, where st = "empty_load example_db"]
    dropped_line_no_store_access [OF k, where st = "empty_load example_db"] h k b
  show ?thesis by (simp add: empty_load_def)
qed

section \<open>Inserts that find the key present\<close>

lemma insert_city_present:
  "list_ex (\<lambda>x. c_geonameid x = c_geonameid c) (cities d) \<Longrightarrow>
   insert_city c d = d\<lparr>queries := queries d + 1\<rparr>"
  by (simp add: insert_city_def)

lemma insert_alternate_name_present:
  "list_ex (\<lambda>x. alt_alternatenameid x = alt_alternatenameid a) (alternate_names d) \<Longrightarrow>
   insert_alternate_name a d = d\<lparr>queries := queries d + 1\<rparr>"
  by (simp add: insert_alternate_name_def)

lemma upsert_country_map:
  "list_ex (\<lambda>co. co_country_code co = co_country_code excluded) (countries d) \<Longrightarrow>
   countries (upsert_country excluded d)
   = map (\<lambda>co. if co_country_code co = co_country_code excluded then excluded else co) (countries d)"
  by (simp add: upsert_country_def)

text \<open>
  C4. Claim: ingestion is idempotent. Inserting a place or an alternate name whose id is
  already present leaves the store unchanged; running the place or the alternate-name
  ingestion against a collection that is not empty inserts nothing (the count of the
  existing rows is the only statement); seeding a country whose code exists replaces all
  fields of that row.
\<close>

theorem ingestion_idempotent:
  "(list_ex (\<lambda>x. c_geonameid x = c_geonameid c) (cities d) \<longrightarrow>
      insert_city c d = d\<lparr>queries := queries d + 1\<rparr>) \<and>
   (list_ex (\<lambda>x. alt_alternatenameid x = alt_alternatenameid a) (alternate_names d) \<longrightarrow>
      insert_alternate_name a d = d\<lparr>queries := queries d + 1\<rparr>) \<and>
   (cities d \<noteq> [] \<longrightarrow> loadCitiesData pgin rows d = d\<lparr>queries := queries d + 1\<rparr>) \<and>
   (alternate_names d \<noteq> [] \<longrightarrow>
      loadAlternateNames ext langs lines schedule d = d\<lparr>queries := queries d + 1\<rparr>) \<and>
   (list_ex (\<lambda>co. co_country_code co = co_country_code excluded) (countries d) \<longrightarrow>
      countries (upsert_country excluded d)
      = map (\<lambda>co. if co_country_code co = co_country_code excluded then excluded else co)
          (countries d))"
  by (simp add: insert_city_present insert_alternate_name_present upsert_country_map
      loadCitiesData_def loadAlternateNames_def)

text \<open>
  On the example: Pristina and the alternate name 1 are stored already, both collections
  are not empty, and Austria is seeded again under another name.
\<close>

theorem ingestion_idempotent_witness:
  "insert_city pristina example_db = example_db\<lparr>queries := 1\<rparr> \<and>
   insert_alternate_name (example_alternate_name 1 786714 ''sq'' ''Prishtina'') example_db
     = example_db\<lparr>queries := 1\<rparr> \<and>
   loadCitiesData example_pg_input [paris_row] example_db = example_db\<lparr>queries := 1\<rparr> \<and>
   loadAlternateNames example_ext None [vienna_line] [Line, Immediate, Close] example_db
     = example_db\<lparr>queries := 1\<rparr> \<and>
   map co_name (countries (upsert_country oesterreich example_db)) = [''Oesterreich'', ''France''] \<and>
   map co_spoken_languages (countries (upsert_country oesterreich example_db))
     = [Some ''de,hr,hu,sl'', Some ''fr'']"
proof -
  have 1: "list_ex (\<lambda>x. c_geonameid x = c_geonameid pristina) (cities example_db)" by code_simp
  have 2: "list_ex (\<lambda>x. alt_alternatenameid x
             = alt_alternatenameid (example_alternate_name 1 786714 ''sq'' ''Prishtina''))
           (alternate_names example_db)" by code_simp
  have 3: "cities example_db \<noteq> []" by (simp add: example_db_def)
  have 4: "alternate_names example_db \<noteq> []" by (simp add: example_db_def)
  have 5: "list_ex (\<lambda>co. co_country_code co = co_country_code oesterreich) (countries example_db)"
    by code_simp
  have 6: "map co_name (map (\<lambda>co. if co_country_code co = co_country_code oesterreich
             then oesterreich else co) (countries example_db)) = [''Oesterreich'', ''France'']"
    by code_simp
  have 7: "map co_spoken_languages (map (\<lambda>co. if co_country_code co = co_country_code oesterreich
             then oesterreich else co) (countries example_db)) = [Some ''de,hr,hu,sl'', Some ''fr'']"
    by code_simp
  have q: "queries example_db = 0" by (simp add: example_db_def)
  from ingestion_idempotent [where c = pristina and d = example_db
      and a = "example_alternate_name 1 786714 ''sq'' ''Prishtina''" and pgin = example_pg_input
      and rows = "[paris_row]" and ext = example_ext and langs = None and lines = "[vienna_line]"
      and schedule = "[Line, Immediate, Close]" and excluded = oesterreich] 1 2 3 4 5 6 7
  show ?thesis by (simp add: q)
qed

section \<open>Alternate names of places that are not stored\<close>

lemma processRow_orphan:
  "\<not> list_ex (\<lambda>c. pg_integer (parseInt (ar_geonameid row)) = Some (c_geonameid c)) (cities d) \<Longrightarrow>
   processRow row d = (0, d\<lparr>queries := queries d + 1\<rparr>)"
  by (auto simp: processRow_def Let_def list_ex_iff filter_empty_conv split: option.splits)

text \<open>
  C5. Claim: an alternate-name row whose place id identifies no stored place is never
  stored, and so never appears in the translations of a later search result.
  \<^verbatim>\<open>processRow\<close>, through which every row of the dump goes to the table, sends the one
  \<^verbatim>\<open>SELECT\<close> for such a row, counts 0 and leaves the tables as they were.
\<close>

theorem orphan_alternate_name_never_stored:
  "\<not> list_ex (\<lambda>c. pg_integer (parseInt (ar_geonameid row)) = Some (c_geonameid c)) (cities d) \<longrightarrow>
     processRow row d = (0, d\<lparr>queries := queries d + 1\<rparr>)"
  using processRow_orphan [of row d] by simp

text \<open>
  On the example: the place 999 is not stored, so the row that names it is not stored
  either.
\<close>

theorem orphan_alternate_name_never_stored_witness:
  "\<not> list_ex (\<lambda>c. pg_integer (parseInt (ar_geonameid orphan_row)) = Some (c_geonameid c))
       (cities example_db) \<and>
   processRow orphan_row example_db = (0, example_db\<lparr>queries := 1\<rparr>) \<and>
   alternate_names (snd (processRow orphan_row example_db)) = alternate_names example_db"
proof -
  have o: "\<not> list_ex (\<lambda>c. pg_integer (parseInt (ar_geonameid orphan_row)) = Some (c_geonameid c))
       (cities example_db)" by code_simp
  have q: "queries example_db = 0" by (simp add: example_db_def)
  from orphan_alternate_name_never_stored [where row = orphan_row and d = example_db] o
  show ?thesis by (simp add: q)
qed

section \<open>The events of the alternate-names load\<close>

text \<open>The reader delivers lines to a queue of at most 1000 and schedules a callback for each.\<close>

lemma lines_queued:
  "n \<le> length lines \<Longrightarrow> n \<le> 1000 \<Longrightarrow>
   fold (fire ext langs) (replicate n Line) (reader_created lines d)
   = (reader_created lines d)\<lparr>ev_input := drop n lines, ev_lineQueue := take n lines,
                               ev_immediates := n\<rparr>"
proof (induction n)
  case 0
  then show ?case by (simp add: reader_created_def)
next
  case (Suc n)
  let ?st = "(reader_created lines d)\<lparr>ev_input := drop n lines, ev_lineQueue := take n lines,
                                       ev_immediates := n\<rparr>"
  from Suc have f: "fold (fire ext langs) (replicate n Line) (reader_created lines d) = ?st"
    by (simp del: fold_replicate)
  from Suc.prems have d: "drop n lines = lines ! n # drop (Suc n) lines"
    by (simp add: Cons_nth_drop_Suc)
  from Suc.prems have t: "take n lines @ [lines ! n] = take (Suc n) lines"
    by (simp add: take_Suc_conv_app_nth)
  have r: "replicate (Suc n) Line = replicate n Line @ [Line]"
    by (simp add: replicate_append_same)
  have "fold (fire ext langs) (replicate (Suc n) Line) (reader_created lines d)
        = fire ext langs Line ?st"
    unfolding r by (simp only: fold_append comp_apply f fold_simps id_apply)
  also have "\<dots> = (reader_created lines d)\<lparr>ev_input := drop (Suc n) lines,
                      ev_lineQueue := take (Suc n) lines, ev_immediates := Suc n\<rparr>"
    using Suc.prems
    by (simp add: fire_def d line_handler_def Let_def reader_created_def t del: take_Suc_Cons)
  finally show ?case .
qed

text \<open>
  While a call of \<^verbatim>\<open>processQueue\<close> is under way, a callback of
  \<^verbatim>\<open>setImmediate\<close> returns at once, and the lines the reader delivers all go to the
  queue, paused or not.
\<close>

lemma immediates_while_processing:
  "ev_isProcessing st \<Longrightarrow> n \<le> ev_immediates st \<Longrightarrow>
   fold (fire ext langs) (replicate n Immediate) st = st\<lparr>ev_immediates := ev_immediates st - n\<rparr>"
proof (induction n arbitrary: st)
  case 0
  then show ?case by simp
next
  case (Suc n)
  let ?st = "st\<lparr>ev_immediates := ev_immediates st - 1\<rparr>"
  from Suc.prems have f: "fire ext langs Immediate st = ?st"
    by (simp add: fire_def processQueue_def settle_def)
  from Suc.prems Suc.IH [of ?st] show ?case by (simp add: f del: fold_replicate)
qed

lemma line_while_processing:
  assumes "ev_isProcessing st" and "\<not> ev_closed st" and "ev_input st = line # rest"
  shows "ev_lineQueue (fire ext langs Line st) = ev_lineQueue st @ [line] \<and>
         ev_input (fire ext langs Line st) = rest \<and>
         ev_load (fire ext langs Line st) = ev_load st \<and>
         ev_awaiting (fire ext langs Line st) = ev_awaiting st \<and>
         ev_isProcessing (fire ext langs Line st) \<and> \<not> ev_closed (fire ext langs Line st) \<and>
         (ev_paused st \<longrightarrow> ev_paused (fire ext langs Line st))"
  using assms by (simp add: fire_def line_handler_def Let_def processQueue_def settle_def)

lemma lines_while_processing:
  "ev_isProcessing st \<Longrightarrow> \<not> ev_closed st \<Longrightarrow> ev_paused st \<Longrightarrow> n \<le> length (ev_input st) \<Longrightarrow>
   ev_lineQueue (fold (fire ext langs) (replicate n Line) st) = ev_lineQueue st @ take n (ev_input st) \<and>
   ev_load (fold (fire ext langs) (replicate n Line) st) = ev_load st \<and>
   ev_awaiting (fold (fire ext langs) (replicate n Line) st) = ev_awaiting st \<and>
   ev_paused (fold (fire ext langs) (replicate n Line) st)"
proof (induction n arbitrary: st)
  case 0
  then show ?case by simp
next
  case (Suc n)
  from Suc.prems obtain line rest where i: "ev_input st = line # rest"
    by (cases "ev_input st") auto
  note l = line_while_processing [OF Suc.prems(1,2) i, of ext langs]
  from Suc.prems i l have "n \<le> length (ev_input (fire ext langs Line st))" by simp
  from Suc.IH [OF _ _ _ this] l Suc.prems(3) i show ?case by (simp del: fold_replicate)
qed

text \<open>The lines and the rows of the examples.\<close>

lemma split_vienna_line:
  "split (CHR 0x09) vienna_line
   = [''10'', ''2761369'', ''it'', ''Vienna'', ''1'', '''', '''', '''', '''', '''']"
  by code_simp

lemma split_wien_line:
  "split (CHR 0x09) wien_line
   = [''13'', ''2761369'', ''de'', ''Wien'', ''1'', '''', '''', '''', '''', '''']"
  by code_simp

lemma processLine_vienna_line:
  "processLine ext None vienna_line ld
   = ld\<lparr>ld_processed := ld_processed ld + 1, ld_batch := ld_batch ld @ [vienna_row]\<rparr>"
  by (simp add: processLine_def split_vienna_line vienna_row_def Let_def)

lemma processLine_wien_line:
  "processLine ext None wien_line ld
   = ld\<lparr>ld_processed := ld_processed ld + 1, ld_batch := ld_batch ld @ [wien_row]\<rparr>"
  by (simp add: processLine_def split_wien_line wien_row_def Let_def)

lemma processQueue_loop_vienna:
  "length (ld_batch ld) + n = BATCH_SIZE \<Longrightarrow> 0 < n \<Longrightarrow>
   processQueue_loop ext None (replicate n vienna_line @ rest) ld
   = (True, rest, ld\<lparr>ld_processed := ld_processed ld + n,
                      ld_batch := ld_batch ld @ replicate n vienna_row\<rparr>)"
proof (induction n arbitrary: ld)
  case 0
  then show ?case by simp
next
  case (Suc n)
  let ?ld1 = "processLine ext None vienna_line ld"
  show ?case
  proof (cases "n = 0")
    case True
    with Suc.prems show ?thesis by (simp add: processLine_vienna_line Let_def)
  next
    case False
    with Suc.prems have "length (ld_batch ?ld1) + n = BATCH_SIZE" "0 < n"
      "\<not> BATCH_SIZE \<le> length (ld_batch ?ld1)"
      by (simp_all add: processLine_vienna_line)
    with Suc.IH [of ?ld1] show ?thesis
      by (simp add: Let_def processLine_vienna_line replicate_app_Cons_same)
  qed
qed

lemma alternate_name_of_vienna_row: "alternate_name_of_row vienna_row = Some vienna_italian"
  by code_simp

lemma vienna_row_geonameid: "pg_integer (parseInt (ar_geonameid vienna_row)) = Some 2761369"
  by code_simp

lemma processRow_vienna_row:
  assumes "filter (\<lambda>c. c_geonameid c = 2761369) (cities d) \<noteq> []"
  shows "processRow vienna_row d = (1, insert_alternate_name vienna_italian (d\<lparr>queries := queries d + 1\<rparr>))"
  using assms
  by (simp add: processRow_def vienna_row_geonameid alternate_name_of_vienna_row Let_def)

lemma processBatch_vienna_stored:
  assumes "filter (\<lambda>c. c_geonameid c = 2761369) (cities d) \<noteq> []"
    and "list_ex (\<lambda>x. alt_alternatenameid x = 10) (alternate_names d)"
  shows "processBatch (replicate n vienna_row) d = (n, d\<lparr>queries := queries d + 2 * n\<rparr>)"
  using assms
proof (induction n arbitrary: d)
  case 0
  then show ?case by simp
next
  case (Suc n)
  let ?d = "d\<lparr>queries := queries d + 2\<rparr>"
  from Suc.prems have r: "processRow vienna_row d = (1, ?d)"
    by (simp add: processRow_vienna_row insert_alternate_name_def vienna_italian_def)
  from Suc.prems Suc.IH [of ?d] show ?case by (simp add: r)
qed

lemma processBatch_vienna_new:
  assumes "filter (\<lambda>c. c_geonameid c = 2761369) (cities d) \<noteq> []"
    and "alternate_names d = []"
  shows "processBatch (replicate (Suc n) vienna_row) d
         = (Suc n, d\<lparr>alternate_names := [vienna_italian], queries := queries d + 2 * Suc n\<rparr>)"
proof -
  let ?d = "d\<lparr>alternate_names := [vienna_italian], queries := queries d + 2\<rparr>"
  from assms have r: "processRow vienna_row d = (1, ?d)"
    by (simp add: processRow_vienna_row insert_alternate_name_def)
  have "processBatch (replicate n vienna_row) ?d = (n, ?d\<lparr>queries := queries ?d + 2 * n\<rparr>)"
    using assms by (intro processBatch_vienna_stored) (simp_all add: vienna_italian_def)
  with r show ?thesis by simp
qed

lemma vienna_stored: "filter (\<lambda>c. c_geonameid c = 2761369) (cities unloaded_db) \<noteq> []"
  by (simp add: unloaded_db_def example_db_def example_city_def)

lemma unloaded_db_queries: "queries unloaded_db = 0"
  by (simp add: unloaded_db_def example_db_def)


text \<open>
  The load of the 201 lines: the reader delivers them, the first callback takes a hundred
  from the queue and waits for their batch, and the other callbacks return at once. The
  batch is applied, and \<^verbatim>\<open>processQueue\<close> takes the next hundred lines and waits for
  their batch. Then the reader closes: the handler of \<^verbatim>\<open>close\<close> finds
  \<^verbatim>\<open>processQueue\<close> under way and passes the same batch to \<^verbatim>\<open>processBatch\<close>.
\<close>

lemma first_batch_awaited:
  "fold (fire ext None) (replicate 201 Line @ replicate 201 Immediate)
     (reader_created example_lines unloaded_db)
   = \<lparr> ev_input = [], ev_paused = True, ev_closed = False,
       ev_lineQueue = replicate 100 vienna_line @ [wien_line], ev_isProcessing = True,
       ev_load = \<lparr> ld_count = 0, ld_processed = 100, ld_batch = replicate 100 vienna_row,
                   ld_db = unloaded_db\<lparr>queries := 1\<rparr> \<rparr>,
       ev_immediates = 0, ev_thens = 0, ev_awaiting = Some From_immediate, ev_closing = None,
       ev_resolved = False \<rparr>"
proof -
  let ?ld = "\<lparr> ld_count = 0, ld_processed = 0, ld_batch = [],
               ld_db = unloaded_db\<lparr>queries := 1\<rparr> \<rparr>"
  let ?st1 = "\<lparr> ev_input = [], ev_paused = False, ev_closed = False, ev_lineQueue = example_lines,
                ev_isProcessing = False, ev_load = ?ld,
                ev_immediates = 201, ev_thens = 0, ev_awaiting = None, ev_closing = None,
                ev_resolved = False \<rparr>"
  let ?st2 = "\<lparr> ev_input = [], ev_paused = True, ev_closed = False,
                ev_lineQueue = replicate 100 vienna_line @ [wien_line], ev_isProcessing = True,
                ev_load = \<lparr> ld_count = 0, ld_processed = 100, ld_batch = replicate 100 vienna_row,
                            ld_db = unloaded_db\<lparr>queries := 1\<rparr> \<rparr>,
                ev_immediates = 200, ev_thens = 0, ev_awaiting = Some From_immediate,
                ev_closing = None, ev_resolved = False \<rparr>"
  have n: "length example_lines = 201" by (simp add: example_lines_def)
  have 1: "fold (fire ext None) (replicate 201 Line) (reader_created example_lines unloaded_db) = ?st1"
    using lines_queued [of 201 example_lines ext None unloaded_db] n
    by (simp add: reader_created_def unloaded_db_queries del: fold_replicate)
  have m: "(200::nat) = 100 + 100" by simp
  have e: "example_lines = replicate 100 vienna_line @ replicate 100 vienna_line @ [wien_line]"
    unfolding example_lines_def m by (simp only: replicate_add append_assoc)
  have l: "processQueue_loop ext None example_lines ?ld
           = (True, replicate 100 vienna_line @ [wien_line],
              ?ld\<lparr>ld_processed := 100, ld_batch := replicate 100 vienna_row\<rparr>)"
    unfolding e
    using processQueue_loop_vienna [of ?ld 100 ext "replicate 100 vienna_line @ [wien_line]"]
    by (simp add: BATCH_SIZE_def)
  have 2: "fire ext None Immediate ?st1 = ?st2"
    by (simp add: fire_def processQueue_def run_loop_def l [simplified])
  have 3: "fold (fire ext None) (replicate 200 Immediate) ?st2 = ?st2\<lparr>ev_immediates := 0\<rparr>"
    using immediates_while_processing [of ?st2 200 ext None] by (simp del: fold_replicate)
  have r: "replicate 201 Immediate = Immediate # replicate 200 Immediate"
    by (simp add: numeral_eq_Suc)
  show ?thesis
    unfolding fold_append comp_apply 1 r fold_simps 2 3 by simp
qed

lemma close_during_batch_state:
  "fold (fire ext None) close_during_batch (reader_created example_lines unloaded_db)
   = \<lparr> ev_input = [], ev_paused = True, ev_closed = True, ev_lineQueue = [wien_line],
       ev_isProcessing = True,
       ev_load = \<lparr> ld_count = 100, ld_processed = 200, ld_batch = replicate 100 vienna_row,
                   ld_db = unloaded_db\<lparr>alternate_names := [vienna_italian], queries := 201\<rparr> \<rparr>,
       ev_immediates = 0, ev_thens = 0, ev_awaiting = Some From_immediate,
       ev_closing = Some (replicate 100 vienna_row), ev_resolved = False \<rparr>"
proof -
  let ?d = "unloaded_db\<lparr>queries := 1\<rparr>"
  let ?d1 = "unloaded_db\<lparr>alternate_names := [vienna_italian], queries := 201\<rparr>"
  let ?ld = "\<lparr> ld_count = 100, ld_processed = 100, ld_batch = [], ld_db = ?d1 \<rparr>"
  have c: "close_during_batch
           = (replicate 201 Line @ replicate 201 Immediate) @ [Batch_applied, Close]"
    by (simp add: close_during_batch_def)
  have h: "(100::nat) = Suc 99" by simp
  have b1: "processBatch (replicate 100 vienna_row) ?d = (100, ?d1)"
    unfolding h using processBatch_vienna_new [of ?d 99] vienna_stored
    by (simp add: unloaded_db_def)
  have l: "processQueue_loop ext None (replicate 100 vienna_line @ [wien_line]) ?ld
           = (True, [wien_line],
              ?ld\<lparr>ld_processed := 200, ld_batch := replicate 100 vienna_row\<rparr>)"
    using processQueue_loop_vienna [of ?ld 100 ext "[wien_line]"]
    by (simp add: BATCH_SIZE_def)
  show ?thesis
    unfolding c fold_append [of _ "replicate 201 Line @ replicate 201 Immediate"] comp_apply
      first_batch_awaited
    by (simp add: fire_def batch_applied_def b1 [simplified] run_loop_def l [simplified]
        close_handler_def processQueue_def settle_def)
qed

text \<open>
  The two applications complete. \<^verbatim>\<open>processQueue\<close> goes on with the last line, which it
  puts in the batch, and the handler of \<^verbatim>\<open>close\<close> resolves the promise.
\<close>

lemma close_during_batch_end:
  "fold (fire ext None) close_during_batch_to_the_end (reader_created example_lines unloaded_db)
   = \<lparr> ev_input = [], ev_paused = False, ev_closed = True, ev_lineQueue = [],
       ev_isProcessing = False,
       ev_load = \<lparr> ld_count = 300, ld_processed = 201, ld_batch = [wien_row],
                   ld_db = unloaded_db\<lparr>alternate_names := [vienna_italian], queries := 601\<rparr> \<rparr>,
       ev_immediates = 0, ev_thens = 0, ev_awaiting = None, ev_closing = None,
       ev_resolved = True \<rparr>"
proof -
  let ?d1 = "unloaded_db\<lparr>alternate_names := [vienna_italian], queries := 201\<rparr>"
  let ?d2 = "unloaded_db\<lparr>alternate_names := [vienna_italian], queries := 401\<rparr>"
  have c: "close_during_batch_to_the_end = close_during_batch @ [Batch_applied, Rest_applied]"
    by (simp add: close_during_batch_to_the_end_def)
  have b2: "processBatch (replicate 100 vienna_row) ?d1 = (100, ?d1\<lparr>queries := 401\<rparr>)"
    using processBatch_vienna_stored [of ?d1 100] vienna_stored
    by (simp add: vienna_italian_def)
  have b3: "processBatch (replicate 100 vienna_row) ?d2 = (100, ?d2\<lparr>queries := 601\<rparr>)"
    using processBatch_vienna_stored [of ?d2 100] vienna_stored
    by (simp add: vienna_italian_def)
  show ?thesis
    unfolding c fold_append comp_apply close_during_batch_state
    by (simp add: fire_def batch_applied_def rest_applied_def b2 [simplified] b3 [simplified]
        run_loop_def processLine_wien_line BATCH_SIZE_def Let_def settle_def)
qed

text \<open>
  A dump of 2240 lines that the reader delivers in a row: the 1001st line starts
  \<^verbatim>\<open>processQueue\<close>, which pauses the reader and waits for the first batch; the reader
  delivers the other 1239 lines all the same.
\<close>

lemma lines_beyond_the_ceiling:
  "ev_lineQueue (fold (fire ext None) (replicate 2240 Line)
      (reader_created (replicate 2240 vienna_line) unloaded_db)) = replicate 2140 vienna_line \<and>
   ev_load (fold (fire ext None) (replicate 2240 Line)
      (reader_created (replicate 2240 vienna_line) unloaded_db))
     = \<lparr> ld_count = 0, ld_processed = 100, ld_batch = replicate 100 vienna_row,
         ld_db = unloaded_db\<lparr>queries := 1\<rparr> \<rparr> \<and>
   ev_awaiting (fold (fire ext None) (replicate 2240 Line)
      (reader_created (replicate 2240 vienna_line) unloaded_db)) = Some From_line \<and>
   ev_paused (fold (fire ext None) (replicate 2240 Line)
      (reader_created (replicate 2240 vienna_line) unloaded_db))"
proof -
  let ?lines = "replicate 2240 vienna_line"
  let ?ld = "\<lparr> ld_count = 0, ld_processed = 0, ld_batch = [],
               ld_db = unloaded_db\<lparr>queries := 1\<rparr> \<rparr>"
  let ?st1 = "\<lparr> ev_input = replicate 1240 vienna_line, ev_paused = False, ev_closed = False,
                ev_lineQueue = replicate 1000 vienna_line, ev_isProcessing = False, ev_load = ?ld,
                ev_immediates = 1000, ev_thens = 0, ev_awaiting = None, ev_closing = None,
                ev_resolved = False \<rparr>"
  let ?st2 = "\<lparr> ev_input = replicate 1239 vienna_line, ev_paused = True, ev_closed = False,
                ev_lineQueue = replicate 901 vienna_line, ev_isProcessing = True,
                ev_load = \<lparr> ld_count = 0, ld_processed = 100, ld_batch = replicate 100 vienna_row,
                            ld_db = unloaded_db\<lparr>queries := 1\<rparr> \<rparr>,
                ev_immediates = 1000, ev_thens = 0, ev_awaiting = Some From_line,
                ev_closing = None, ev_resolved = False \<rparr>"
  have n: "(2240::nat) = 1000 + Suc 1239" by simp
  have s: "replicate 2240 Line = replicate 1000 Line @ Line # replicate 1239 Line"
    unfolding n by (simp only: replicate_add replicate_Suc)
  have 1: "fold (fire ext None) (replicate 1000 Line) (reader_created ?lines unloaded_db) = ?st1"
    using lines_queued [of 1000 ?lines ext None unloaded_db]
    by (simp add: reader_created_def unloaded_db_queries del: fold_replicate)
  have m: "(1000::nat) = 100 + 900" "(901::nat) = Suc 900" by simp_all
  have q: "replicate 1000 vienna_line @ [vienna_line]
           = replicate 100 vienna_line @ replicate 901 vienna_line"
    unfolding m by (simp only: replicate_add replicate_Suc replicate_append_same append_assoc)
  have l: "processQueue_loop ext None (replicate 1000 vienna_line @ [vienna_line]) ?ld
           = (True, replicate 901 vienna_line,
              ?ld\<lparr>ld_processed := 100, ld_batch := replicate 100 vienna_row\<rparr>)"
    unfolding q using processQueue_loop_vienna [of ?ld 100 ext "replicate 901 vienna_line"]
    by (simp add: BATCH_SIZE_def)
  have i: "replicate 1240 vienna_line = vienna_line # replicate 1239 vienna_line"
    by (simp add: numeral_eq_Suc)
  have 2: "fire ext None Line ?st1 = ?st2"
    by (simp add: fire_def i line_handler_def Let_def processQueue_def run_loop_def
        l [simplified])
  have f: "fold (fire ext None) (replicate 2240 Line) (reader_created ?lines unloaded_db)
           = fold (fire ext None) (replicate 1239 Line) ?st2"
    unfolding s fold_append comp_apply fold_simps 1 2 ..
  have t: "replicate 901 vienna_line @ replicate 1239 vienna_line = replicate 2140 vienna_line"
    by (simp add: replicate_add [symmetric])
  from lines_while_processing [of ?st2 1239 ext None] t show ?thesis
    unfolding f by (simp del: fold_replicate)
qed


lemma loaded_at_the_end:
  "loadAlternateNames ext None example_lines close_during_batch_to_the_end unloaded_db
   = unloaded_db\<lparr>alternate_names := [vienna_italian], queries := 601\<rparr>"
  by (simp add: loadAlternateNames_def Let_def close_during_batch_end)
     (simp add: unloaded_db_def)

lemma wien_row_applied:
  "map alt_alternatenameid (alternate_names (snd (processRow wien_row
     (unloaded_db\<lparr>alternate_names := [vienna_italian], queries := 601\<rparr>)))) = [10, 13]"
  by code_simp

text \<open>
  C7. Claim: throughout the alternate-names load the number of lines read and not yet
  applied stays below the ceiling of the queue, at most one batch is in flight, and the
  line source is suspended while a batch is applied and resumed only after it. The code
  calls \<^verbatim>\<open>rl.pause()\<close> before it applies a batch, which does not keep the reader from
  delivering the lines it has read, nor from closing. On the dump of 201 lines, when the
  reader closes while the second batch is being applied, the handler of \<^verbatim>\<open>close\<close>
  applies the same batch once more while \<^verbatim>\<open>processQueue\<close> waits for its own
  application of it; when both are done the promise is resolved, no event is left, and the
  row of the last line is still in the batch: of the two names of Vienna only the first is
  stored, though the second would be stored were it applied. On a dump of 2240 lines
  delivered in a row, 2140 lines are in the queue, whose ceiling is 1000, while the first
  batch of 100 is being applied and the reader is paused.
\<close>

theorem backpressure_missed:
  "ev_paused (fold (fire example_ext None) close_during_batch
      (reader_created example_lines unloaded_db)) \<and>
   ev_awaiting (fold (fire example_ext None) close_during_batch
      (reader_created example_lines unloaded_db)) = Some From_immediate \<and>
   ev_closing (fold (fire example_ext None) close_during_batch
      (reader_created example_lines unloaded_db)) = Some (replicate 100 vienna_row) \<and>
   ld_batch (ev_load (fold (fire example_ext None) close_during_batch
      (reader_created example_lines unloaded_db))) = replicate 100 vienna_row \<and>
   ev_resolved (fold (fire example_ext None) close_during_batch_to_the_end
      (reader_created example_lines unloaded_db)) \<and>
   (\<forall>e. fire example_ext None e
          (fold (fire example_ext None) close_during_batch_to_the_end
             (reader_created example_lines unloaded_db))
        = fold (fire example_ext None) close_during_batch_to_the_end
            (reader_created example_lines unloaded_db)) \<and>
   ld_batch (ev_load (fold (fire example_ext None) close_during_batch_to_the_end
      (reader_created example_lines unloaded_db))) = [wien_row] \<and>
   map alt_alternatenameid (alternate_names
      (loadAlternateNames example_ext None example_lines close_during_batch_to_the_end unloaded_db))
     = [10] \<and>
   map alt_alternatenameid (alternate_names (snd (processRow wien_row
      (loadAlternateNames example_ext None example_lines close_during_batch_to_the_end unloaded_db))))
     = [10, 13] \<and>
   length (ev_lineQueue (fold (fire example_ext None) (replicate 2240 Line)
      (reader_created (replicate 2240 vienna_line) unloaded_db))) = 2140 \<and>
   length (ld_batch (ev_load (fold (fire example_ext None) (replicate 2240 Line)
      (reader_created (replicate 2240 vienna_line) unloaded_db)))) = BATCH_SIZE \<and>
   alternate_names (ld_db (ev_load (fold (fire example_ext None) (replicate 2240 Line)
      (reader_created (replicate 2240 vienna_line) unloaded_db)))) = [] \<and>
   ev_awaiting (fold (fire example_ext None) (replicate 2240 Line)
      (reader_created (replicate 2240 vienna_line) unloaded_db)) = Some From_line \<and>
   ev_paused (fold (fire example_ext None) (replicate 2240 Line)
      (reader_created (replicate 2240 vienna_line) unloaded_db))"
proof -
  have q: "fire example_ext None e
          (fold (fire example_ext None) close_during_batch_to_the_end
             (reader_created example_lines unloaded_db))
        = fold (fire example_ext None) close_during_batch_to_the_end
            (reader_created example_lines unloaded_db)" for e
    unfolding close_during_batch_end by (cases e) (simp_all add: fire_def)
  have a: "alternate_names (ld_db (ev_load (fold (fire example_ext None) (replicate 2240 Line)
      (reader_created (replicate 2240 vienna_line) unloaded_db)))) = []"
    using lines_beyond_the_ceiling [of example_ext] by (simp add: unloaded_db_def)
  have v: "map alt_alternatenameid (alternate_names
      (loadAlternateNames example_ext None example_lines close_during_batch_to_the_end unloaded_db))
     = [10]"
    by (simp add: loaded_at_the_end vienna_italian_def)
  from q a v lines_beyond_the_ceiling [of example_ext] wien_row_applied show ?thesis
    by (simp add: close_during_batch_state close_during_batch_end loaded_at_the_end
        BATCH_SIZE_def del: fold_replicate)
qed

end
